theory Spec2Isabelle
  imports Complex_Main "HOL-Library.Word"
begin

unbundle bit_operations_syntax

section \<open>Data model\<close>

text \<open>
  The tables of \<^verbatim>\<open>src/app/models\<close> are lists of rows, in insertion order. A column that
  no modelled operation reads or writes (descriptions, image names, creation timestamps,
  \<^verbatim>\<open>estimated_delivery\<close>, ...) is left out of the row. Integer columns are Python's
  unbounded integers (\<open>int\<close>); a nullable column read by the code is an \<open>option\<close>.
  Monetary columns are \<^verbatim>\<open>db.Float\<close>; they are modelled by exact rationals, so every
  statement below is about the arithmetic the code writes down, without binary rounding.
\<close>

type_synonym money = rat

text \<open>
  A naive \<^verbatim>\<open>datetime\<close>: its calendar fields. Python compares two of them field by field,
  from the year down to the microsecond.
\<close>

record datetime =
  year :: nat
  month :: nat
  day :: nat
  hour :: nat
  minute :: nat
  second :: nat
  microsecond :: nat

fun lex_less :: "nat list \<Rightarrow> nat list \<Rightarrow> bool" where
  "lex_less (x # xs) (y # ys) = (x < y \<or> (x = y \<and> lex_less xs ys))"
| "lex_less [] (y # ys) = True"
| "lex_less xs [] = False"

definition dt_fields :: "datetime \<Rightarrow> nat list" where
  "dt_fields d = [year d, month d, day d, hour d, minute d, second d, microsecond d]"

definition dt_less :: "datetime \<Rightarrow> datetime \<Rightarrow> bool" where
  "dt_less a b = lex_less (dt_fields a) (dt_fields b)"

subsection \<open>Strings\<close>

text \<open>\<^verbatim>\<open>str.upper()\<close> on the ASCII letters; every other character is kept.\<close>

definition upper_char :: "char \<Rightarrow> char" where
  "upper_char c =
     (case map_of (zip ''abcdefghijklmnopqrstuvwxyz'' ''ABCDEFGHIJKLMNOPQRSTUVWXYZ'') c of
        Some u \<Rightarrow> u
      | None \<Rightarrow> c)"

definition upper :: "string \<Rightarrow> string" where
  "upper s = map upper_char s"

text \<open>Python's \<^verbatim>\<open>sum\<close>: a left fold of \<open>+\<close> from 0.\<close>

definition py_sum :: "money list \<Rightarrow> money" where
  "py_sum xs = foldl (+) 0 xs"

subsection \<open>Coupon (src/app/models/coupon.py)\<close>

record coupon =
  c_id :: int
  c_bakery_id :: "int option"
  c_code :: string
  discount_type :: string
  discount_value :: money
  c_min_order_amount :: money
  max_discount :: "money option"
  usage_limit :: "int option"
  used_count :: int
  valid_from :: "datetime option"
  valid_until :: "datetime option"
  c_is_active :: bool

text \<open>
  The second component of \<^verbatim>\<open>is_valid\<close>'s result, one constructor per message of the
  source: 'Coupon is not active', 'Coupon is not yet valid', 'Coupon has expired',
  'Coupon usage limit reached', 'Minimum order amount is ...' (with the coupon's
  minimum), 'Coupon is not valid for this bakery', 'Coupon is valid'.
\<close>

datatype validity_message =
    Coupon_Not_Active
  | Coupon_Not_Yet_Valid
  | Coupon_Expired
  | Coupon_Limit_Reached
  | Coupon_Minimum money
  | Coupon_Wrong_Bakery
  | Coupon_Is_Valid

text \<open>
  The five checks of \<^verbatim>\<open>Coupon.is_valid\<close>, each with Python's truthiness written out: a
  \<^verbatim>\<open>None\<close> bound or limit never fails, and neither does a limit or a bakery id of 0.
\<close>

definition check_not_active :: "coupon \<Rightarrow> bool" where
  "check_not_active c = (\<not> c_is_active c)"

definition check_not_yet_valid :: "coupon \<Rightarrow> datetime \<Rightarrow> bool" where
  "check_not_yet_valid c now =
     (case valid_from c of None \<Rightarrow> False | Some f \<Rightarrow> dt_less now f)"

definition check_expired :: "coupon \<Rightarrow> datetime \<Rightarrow> bool" where
  "check_expired c now =
     (case valid_until c of None \<Rightarrow> False | Some u \<Rightarrow> dt_less u now)"

definition check_limit_reached :: "coupon \<Rightarrow> bool" where
  "check_limit_reached c =
     (case usage_limit c of None \<Rightarrow> False | Some l \<Rightarrow> l \<noteq> 0 \<and> l \<le> used_count c)"

definition check_below_minimum :: "coupon \<Rightarrow> money \<Rightarrow> bool" where
  "check_below_minimum c order_amount = (order_amount < c_min_order_amount c)"

definition check_wrong_bakery :: "coupon \<Rightarrow> int option \<Rightarrow> bool" where
  "check_wrong_bakery c bakery_id =
     (case c_bakery_id c of
        None \<Rightarrow> False
      | Some own \<Rightarrow>
          (case bakery_id of
             None \<Rightarrow> False
           | Some b \<Rightarrow> own \<noteq> 0 \<and> b \<noteq> 0 \<and> own \<noteq> b))"

text \<open>
  \<^verbatim>\<open>Coupon.is_valid(self, order_amount, bakery_id=None)\<close>. The clock it reads
  (\<^verbatim>\<open>datetime.utcnow()\<close>) is the argument \<open>now\<close>. The source assigns to no attribute, so
  the result is the returned pair alone.
\<close>

definition is_valid :: "coupon \<Rightarrow> datetime \<Rightarrow> money \<Rightarrow> int option \<Rightarrow> bool \<times> validity_message" where
  "is_valid c now order_amount bakery_id =
     (if check_not_active c then (False, Coupon_Not_Active)
      else if check_not_yet_valid c now then (False, Coupon_Not_Yet_Valid)
      else if check_expired c now then (False, Coupon_Expired)
      else if check_limit_reached c then (False, Coupon_Limit_Reached)
      else if check_below_minimum c order_amount
        then (False, Coupon_Minimum (c_min_order_amount c))
      else if check_wrong_bakery c bakery_id then (False, Coupon_Wrong_Bakery)
      else (True, Coupon_Is_Valid))"

text \<open>
  \<^verbatim>\<open>Coupon.calculate_discount(self, order_amount)\<close>. \<^verbatim>\<open>if self.max_discount:\<close> is false
  for \<^verbatim>\<open>None\<close> and for 0; every type other than 'percentage' takes the fixed branch.
\<close>

definition calculate_discount :: "coupon \<Rightarrow> money \<Rightarrow> money" where
  "calculate_discount c order_amount =
     (if discount_type c = ''percentage'' then
        (let discount = (order_amount * discount_value c) / 100 in
           (case max_discount c of
              None \<Rightarrow> discount
            | Some m \<Rightarrow> if m \<noteq> 0 then min discount m else discount))
      else min (discount_value c) order_amount)"

text \<open>
  The validation rule in the words of the specification, on the coupon's columns and
  without the code's checks. A coupon is refused, in this order, when it is switched off;
  when the clock is before its \<open>valid_from\<close>; when the clock is after its \<open>valid_until\<close>;
  when a usage limit is set and the uses have reached it; when the order amount is below
  its minimum; when it is scoped to a bakery, a bakery is given and the two differ. A date
  that is NULL is not set; a limit or a bakery key that is NULL or 0 is not set. The first
  condition of the list that holds gives the reason.
\<close>

fun first_failing :: "(bool \<times> validity_message) list \<Rightarrow> bool \<times> validity_message" where
  "first_failing [] = (True, Coupon_Is_Valid)"
| "first_failing ((failed, reason) # rest) =
     (if failed then (False, reason) else first_failing rest)"

definition spec_checks :: "coupon \<Rightarrow> datetime \<Rightarrow> money \<Rightarrow> int option \<Rightarrow> (bool \<times> validity_message) list" where
  "spec_checks c now order_amount bakery_id =
     [(c_is_active c = False, Coupon_Not_Active),
      (valid_from c \<noteq> None \<and> dt_less now (the (valid_from c)), Coupon_Not_Yet_Valid),
      (valid_until c \<noteq> None \<and> dt_less (the (valid_until c)) now, Coupon_Expired),
      (usage_limit c \<notin> {None, Some 0} \<and> the (usage_limit c) \<le> used_count c, Coupon_Limit_Reached),
      (order_amount < c_min_order_amount c, Coupon_Minimum (c_min_order_amount c)),
      (c_bakery_id c \<notin> {None, Some 0} \<and> bakery_id \<notin> {None, Some 0} \<and> c_bakery_id c \<noteq> bakery_id,
       Coupon_Wrong_Bakery)]"

definition example_coupon :: coupon where
  "example_coupon =
     \<lparr>c_id = 1, c_bakery_id = None, c_code = ''WELCOME10'',
      discount_type = ''percentage'', discount_value = 10, c_min_order_amount = 200,
      max_discount = Some 100, usage_limit = Some 1000, used_count = 0,
      valid_from = None, valid_until = None, c_is_active = True\<rparr>"

subsection \<open>Product (src/app/models/product.py)\<close>

record product =
  p_id :: int
  p_bakery_id :: int
  p_name :: string
  price :: money
  discount_price :: "money option"
  stock_quantity :: int
  is_available :: bool

text \<open>
  \<^verbatim>\<open>Product.current_price\<close>: \<^verbatim>\<open>if self.discount_price and self.discount_price < self.price\<close>;
  a discount price of \<^verbatim>\<open>None\<close> or 0 is falsy.
\<close>

definition current_price :: "product \<Rightarrow> money" where
  "current_price p =
     (case discount_price p of
        None \<Rightarrow> price p
      | Some d \<Rightarrow> if d \<noteq> 0 \<and> d < price p then d else price p)"

text \<open>\<^verbatim>\<open>Product.reduce_stock(self, quantity)\<close>: the returned flag and the product afterwards.\<close>

definition reduce_stock :: "product \<Rightarrow> int \<Rightarrow> bool \<times> product" where
  "reduce_stock p quantity =
     (if quantity \<le> stock_quantity p
      then (True, p\<lparr>stock_quantity := stock_quantity p - quantity\<rparr>)
      else (False, p))"

text \<open>The line \<^verbatim>\<open>item.product.stock_quantity += item.quantity\<close> of \<^verbatim>\<open>cancel_order\<close>.\<close>

definition restore_stock :: "product \<Rightarrow> int \<Rightarrow> product" where
  "restore_stock p quantity = p\<lparr>stock_quantity := stock_quantity p + quantity\<rparr>"

subsection \<open>The other rows\<close>

record cart_item =
  ci_id :: int
  ci_user_id :: int
  ci_product_id :: int
  ci_quantity :: int
  ci_special_instructions :: "string option"

record bakery =
  b_id :: int
  b_min_order_amount :: money
  b_delivery_fee :: money
  is_approved :: bool
  rating :: rat
  total_reviews :: int

record address =
  a_id :: int
  a_user_id :: int

record order =
  o_id :: int
  order_number :: string
  customer_id :: int
  o_bakery_id :: int
  delivery_address_id :: "int option"
  o_subtotal :: money
  o_delivery_fee :: money
  o_discount :: money
  total_amount :: money
  status :: string
  payment_method :: string
  cancellation_reason :: "string option"
  o_special_instructions :: string
  delivered_at :: "datetime option"

record order_item =
  oi_order_id :: int
  oi_product_id :: int
  oi_product_name :: string
  oi_quantity :: int
  unit_price :: money
  oi_subtotal :: money
  oi_special_instructions :: "string option"

record order_status_history =
  h_order_id :: int
  h_status :: string
  h_notes :: "string option"

record notification =
  n_user_id :: int
  n_title :: string
  n_message :: string
  n_type :: string
  n_link :: string

record review =
  r_id :: int
  r_bakery_id :: int
  r_rating :: int
  is_visible :: bool

record db =
  products :: "product list"
  cart_items :: "cart_item list"
  bakeries :: "bakery list"
  addresses :: "address list"
  coupons :: "coupon list"
  orders :: "order list"
  order_items :: "order_item list"
  status_history :: "order_status_history list"
  notifications :: "notification list"
  reviews :: "review list"

subsection \<open>Queries and row updates\<close>

text \<open>
  \<^verbatim>\<open>query.filter_by(...).first()\<close> is \<open>find\<close>, \<^verbatim>\<open>.all()\<close> is \<open>filter\<close>. An attribute written
  through a loaded object changes the row with that primary key.
\<close>

definition get_product :: "product list \<Rightarrow> int \<Rightarrow> product option" where
  "get_product ps pid = find (\<lambda>p. p_id p = pid) ps"

definition update_product :: "int \<Rightarrow> (product \<Rightarrow> product) \<Rightarrow> product list \<Rightarrow> product list" where
  "update_product pid f ps = map (\<lambda>q. if p_id q = pid then f q else q) ps"

definition get_bakery :: "bakery list \<Rightarrow> int \<Rightarrow> bakery option" where
  "get_bakery bs bid = find (\<lambda>b. b_id b = bid) bs"

definition user_cart :: "db \<Rightarrow> int \<Rightarrow> cart_item list" where
  "user_cart d uid = filter (\<lambda>ci. ci_user_id ci = uid) (cart_items d)"

definition clear_user_cart :: "int \<Rightarrow> cart_item list \<Rightarrow> cart_item list" where
  "clear_user_cart uid rows = filter (\<lambda>ci. ci_user_id ci \<noteq> uid) rows"

text \<open>A fresh primary key for an inserted row: one more than the largest key in use.\<close>

definition fresh_id :: "int list \<Rightarrow> int" where
  "fresh_id ids = fold max ids 0 + 1"

text \<open>\<^verbatim>\<open>CartItem.subtotal\<close> (src/app/models/cart.py): 0 when the product is missing.\<close>

definition ci_subtotal :: "product list \<Rightarrow> cart_item \<Rightarrow> money" where
  "ci_subtotal ps ci =
     (case get_product ps (ci_product_id ci) of
        Some p \<Rightarrow> current_price p * of_int (ci_quantity ci)
      | None \<Rightarrow> 0)"

subsection \<open>Order number (src/app/models/order.py)\<close>

text \<open>
  Decimal digits of a number, and a field padded with zeros to a width, as
  \<^verbatim>\<open>strftime\<close> prints \<^verbatim>\<open>%Y\<close> (width 4) and \<^verbatim>\<open>%m %d %H %M\<close> (width 2).
\<close>

definition digit_chars :: string where
  "digit_chars = ''0123456789''"

fun decimal :: "nat \<Rightarrow> string" where
  "decimal n = (if n < 10 then [digit_chars ! n] else decimal (n div 10) @ [digit_chars ! (n mod 10)])"

declare decimal.simps [simp del]

definition zero_pad :: "nat \<Rightarrow> nat \<Rightarrow> string" where
  "zero_pad w n = replicate (w - length (decimal n)) (CHR ''0'') @ decimal n"

definition strftime_YmdHM :: "datetime \<Rightarrow> string" where
  "strftime_YmdHM t =
     zero_pad 4 (year t) @ zero_pad 2 (month t) @ zero_pad 2 (day t)
       @ zero_pad 2 (hour t) @ zero_pad 2 (minute t)"

text \<open>
  \<^verbatim>\<open>uuid.uuid4().hex\<close>: sixteen random bytes as a 128-bit number, the variant and version
  bits set as \<^verbatim>\<open>UUID.__init__\<close> sets them, printed as 32 lower-case hexadecimal digits.
\<close>

definition hex_chars :: string where
  "hex_chars = ''0123456789abcdef''"

definition uuid4_int :: "128 word \<Rightarrow> 128 word" where
  "uuid4_int r =
     (((r AND NOT (push_bit 48 0xc000)) OR push_bit 48 0x8000)
        AND NOT (push_bit 64 0xf000)) OR push_bit 76 4"

definition hex32 :: "128 word \<Rightarrow> string" where
  "hex32 w = map (\<lambda>i. hex_chars ! unat (drop_bit (4 * (31 - i)) w AND 15)) [0..<32]"

text \<open>
  \<^verbatim>\<open>Order.generate_order_number()\<close>; the clock reading and the random bytes are its
  arguments.
\<close>

definition generate_order_number :: "datetime \<Rightarrow> 128 word \<Rightarrow> string" where
  "generate_order_number now r =
     (let timestamp = strftime_YmdHM now;
          unique_id = upper (take 6 (hex32 (uuid4_int r)))
      in ''LC'' @ timestamp @ unique_id)"

text \<open>What a \<^verbatim>\<open>datetime\<close> object can hold (the fields the order number prints).\<close>

definition valid_datetime :: "datetime \<Rightarrow> bool" where
  "valid_datetime t =
     (1 \<le> year t \<and> year t \<le> 9999 \<and> 1 \<le> month t \<and> month t \<le> 12 \<and> 1 \<le> day t \<and> day t \<le> 31
        \<and> hour t \<le> 23 \<and> minute t \<le> 59)"

text \<open>Reading a decimal numeral back.\<close>

definition digit_value :: "char \<Rightarrow> nat" where
  "digit_value c = (case map_of (zip digit_chars [0..<10]) c of Some v \<Rightarrow> v | None \<Rightarrow> 0)"

definition read_decimal :: "string \<Rightarrow> nat" where
  "read_decimal s = foldl (\<lambda>a c. 10 * a + digit_value c) 0 s"

subsection \<open>Notification (src/app/models/notification.py)\<close>

definition status_messages :: "(string \<times> string) list" where
  "status_messages =
     [(''confirmed'', ''Your order has been confirmed by the bakery!''),
      (''preparing'', ''The bakery is preparing your order.''),
      (''ready'', ''Your order is ready for pickup/delivery!''),
      (''out_for_delivery'', ''Your order is on its way!''),
      (''delivered'', ''Your order has been delivered. Enjoy!''),
      (''cancelled'', ''Your order has been cancelled.'')]"

definition create_order_notification :: "int \<Rightarrow> string \<Rightarrow> string \<Rightarrow> notification" where
  "create_order_notification user_id number st =
     \<lparr>n_user_id = user_id,
      n_title = ''Order '' @ number,
      n_message = (case map_of status_messages st of
                     Some m \<Rightarrow> m
                   | None \<Rightarrow> ''Order status updated to: '' @ st),
      n_type = ''order'',
      n_link = ''/orders/'' @ number\<rparr>"

section \<open>Checkout (src/app/routes/orders.py)\<close>

datatype http_method = GET | POST

text \<open>
  One call of the route: the logged-in user, the method, the form fields as the route
  parses them (\<^verbatim>\<open>address_id\<close> with \<^verbatim>\<open>type=int\<close> is \<^verbatim>\<open>None\<close> when absent or not a number),
  the two clock readings (one inside \<^verbatim>\<open>is_valid\<close>, one inside
  \<^verbatim>\<open>generate_order_number\<close>) and the random bytes of the order number.
\<close>

record checkout_call =
  k_user :: int
  k_method :: http_method
  k_address_id :: "int option"
  k_payment_method :: string
  k_special_instructions :: string
  k_coupon_code :: string
  k_now_coupon :: datetime
  k_now_number :: datetime
  k_random :: "128 word"

text \<open>
  The route's answers. \<open>Cart_Is_Empty\<close>, \<open>Minimum_Not_Reached\<close> and \<open>Address_Not_Valid\<close>
  are the three flashed rejections followed by a redirect; \<open>Checkout_Page\<close> is the rendered
  form of a GET; \<open>Order_Placed\<close> carries the order number and the warning flashed for a
  coupon that was found and not valid; \<open>Server_Error\<close> is an \<^verbatim>\<open>AttributeError\<close> on a cart
  or order row whose product or bakery is missing (nothing is committed).
\<close>

datatype checkout_response =
    Cart_Is_Empty
  | Minimum_Not_Reached money
  | Checkout_Page
  | Address_Not_Valid
  | Order_Placed string "validity_message option"
  | Server_Error

text \<open>Lines 52--61: the discount, the coupon table afterwards and the flashed warning.\<close>

definition apply_coupon ::
  "coupon list \<Rightarrow> string \<Rightarrow> datetime \<Rightarrow> money \<Rightarrow> int \<Rightarrow> money \<times> coupon list \<times> validity_message option" where
  "apply_coupon cs coupon_code now subtotal bakery_id =
     (if coupon_code = [] then (0, cs, None)
      else
        (case find (\<lambda>c. c_code c = upper coupon_code) cs of
           None \<Rightarrow> (0, cs, None)
         | Some coupon \<Rightarrow>
             (case is_valid coupon now subtotal (Some bakery_id) of
                (True, message) \<Rightarrow>
                  (calculate_discount coupon subtotal,
                   map (\<lambda>c. if c_id c = c_id coupon then c\<lparr>used_count := used_count c + 1\<rparr> else c) cs,
                   None)
              | (False, message) \<Rightarrow> (0, cs, Some message))))"

text \<open>
  Lines 84--97: one order item per cart item, and the stock reduced through the product
  the cart item refers to. The result of \<^verbatim>\<open>reduce_stock\<close> is not looked at. \<open>None\<close> is the
  \<^verbatim>\<open>AttributeError\<close> of \<^verbatim>\<open>cart_item.product.name\<close> on a missing product.
\<close>

fun place_items ::
  "int \<Rightarrow> cart_item list \<Rightarrow> product list \<Rightarrow> order_item list \<Rightarrow> (product list \<times> order_item list) option" where
  "place_items oid [] ps acc = Some (ps, acc)"
| "place_items oid (ci # rest) ps acc =
     (case get_product ps (ci_product_id ci) of
        None \<Rightarrow> None
      | Some p \<Rightarrow>
          place_items oid rest
            (update_product (ci_product_id ci) (\<lambda>q. snd (reduce_stock q (ci_quantity ci))) ps)
            (acc @ [\<lparr>oi_order_id = oid,
                     oi_product_id = ci_product_id ci,
                     oi_product_name = p_name p,
                     oi_quantity = ci_quantity ci,
                     unit_price = current_price p,
                     oi_subtotal = ci_subtotal ps ci,
                     oi_special_instructions = ci_special_instructions ci\<rparr>]))"

text \<open>Lines 63--117, once the address is accepted and the coupon applied.\<close>

definition place_order ::
  "db \<Rightarrow> checkout_call \<Rightarrow> cart_item list \<Rightarrow> bakery \<Rightarrow> money \<Rightarrow> int
     \<Rightarrow> money \<times> coupon list \<times> validity_message option \<Rightarrow> checkout_response \<times> db" where
  "place_order d call cart bk subtotal addr applied =
     (case applied of (discount, coupons', warning) \<Rightarrow>
        (let delivery_fee = b_delivery_fee bk;
             total = subtotal + delivery_fee - discount;
             number = generate_order_number (k_now_number call) (k_random call);
             oid = fresh_id (map o_id (orders d));
             new_order =
               \<lparr>o_id = oid, order_number = number, customer_id = k_user call,
                o_bakery_id = b_id bk, delivery_address_id = Some addr,
                o_subtotal = subtotal, o_delivery_fee = delivery_fee, o_discount = discount,
                total_amount = total, status = ''pending'',
                payment_method = k_payment_method call, cancellation_reason = None,
                o_special_instructions = k_special_instructions call, delivered_at = None\<rparr>
         in
           (case place_items oid cart (products d) [] of
              None \<Rightarrow> (Server_Error, d)
            | Some (products', items) \<Rightarrow>
                (Order_Placed number warning,
                 d\<lparr>products := products',
                   cart_items := clear_user_cart (k_user call) (cart_items d),
                   coupons := coupons',
                   orders := orders d @ [new_order],
                   order_items := order_items d @ items,
                   status_history := status_history d
                     @ [\<lparr>h_order_id = oid, h_status = ''pending'', h_notes = Some ''Order placed''\<rparr>],
                   notifications := notifications d
                     @ [(create_order_notification (k_user call) number ''pending'')
                          \<lparr>n_message := ''Your order #'' @ number
                               @ '' has been placed successfully!''\<rparr>]\<rparr>))))"

definition checkout :: "db \<Rightarrow> checkout_call \<Rightarrow> checkout_response \<times> db" where
  "checkout d call =
     (case user_cart d (k_user call) of
        [] \<Rightarrow> (Cart_Is_Empty, d)
      | first # others \<Rightarrow>
          (case get_product (products d) (ci_product_id first) of
             None \<Rightarrow> (Server_Error, d)
           | Some p \<Rightarrow>
               (case get_bakery (bakeries d) (p_bakery_id p) of
                  None \<Rightarrow> (Server_Error, d)
                | Some bk \<Rightarrow>
                    (let cart = first # others;
                         subtotal = py_sum (map (ci_subtotal (products d)) cart)
                     in
                       if subtotal < b_min_order_amount bk
                         then (Minimum_Not_Reached (b_min_order_amount bk), d)
                       else if k_method call = GET then (Checkout_Page, d)
                       else
                         (case k_address_id call of
                            None \<Rightarrow> (Address_Not_Valid, d)
                          | Some addr \<Rightarrow>
                              if find (\<lambda>a. a_id a = addr \<and> a_user_id a = k_user call) (addresses d) = None
                                then (Address_Not_Valid, d)
                              else
                                place_order d call cart bk subtotal addr
                                  (apply_coupon (coupons d) (k_coupon_code call)
                                     (k_now_coupon call) subtotal (b_id bk)))))))"

section \<open>Cancellation and status transitions\<close>

text \<open>\<^verbatim>\<open>Order.can_cancel\<close>.\<close>

definition can_cancel :: "order \<Rightarrow> bool" where
  "can_cancel ord = (status ord \<in> set [''pending'', ''confirmed''])"

text \<open>
  Lines 217--218 of \<^verbatim>\<open>cancel_order\<close>: the quantity of every item of the order is added
  back to its product. \<open>None\<close> is the \<^verbatim>\<open>AttributeError\<close> on a missing product.
\<close>

fun restore_items :: "order_item list \<Rightarrow> product list \<Rightarrow> product list option" where
  "restore_items [] ps = Some ps"
| "restore_items (it # rest) ps =
     (case get_product ps (oi_product_id it) of
        None \<Rightarrow> None
      | Some p \<Rightarrow>
          restore_items rest
            (update_product (oi_product_id it) (\<lambda>q. restore_stock q (oi_quantity it)) ps))"

datatype cancel_response = Cancel_Not_Found | Cannot_Be_Cancelled | Cancelled | Cancel_Server_Error

text \<open>
  \<^verbatim>\<open>cancel_order(order_number)\<close> for the logged-in user; \<open>reason\<close> is the form field, absent
  (\<open>None\<close>) when the default text is taken.
\<close>

definition cancel_order :: "db \<Rightarrow> int \<Rightarrow> string \<Rightarrow> string option \<Rightarrow> cancel_response \<times> db" where
  "cancel_order d user number reason_field =
     (case find (\<lambda>x. order_number x = number \<and> customer_id x = user) (orders d) of
        None \<Rightarrow> (Cancel_Not_Found, d)
      | Some ord \<Rightarrow>
          if \<not> can_cancel ord then (Cannot_Be_Cancelled, d)
          else
            (let reason = (case reason_field of
                             None \<Rightarrow> ''Customer requested cancellation''
                           | Some r \<Rightarrow> r)
             in
               (case restore_items (filter (\<lambda>it. oi_order_id it = o_id ord) (order_items d))
                       (products d) of
                  None \<Rightarrow> (Cancel_Server_Error, d)
                | Some products' \<Rightarrow>
                    (Cancelled,
                     d\<lparr>orders := map (\<lambda>x. if o_id x = o_id ord
                                            then x\<lparr>status := ''cancelled'',
                                                   cancellation_reason := Some reason\<rparr>
                                            else x) (orders d),
                       status_history := status_history d
                         @ [\<lparr>h_order_id = o_id ord, h_status = ''cancelled'', h_notes = Some reason\<rparr>],
                       products := products'\<rparr>))))"

text \<open>The dictionary \<^verbatim>\<open>valid_transitions\<close> of \<^verbatim>\<open>update_order_status\<close> (src/app/routes/baker.py).\<close>

definition valid_transitions :: "(string \<times> string list) list" where
  "valid_transitions =
     [(''pending'', [''confirmed'', ''cancelled'']),
      (''confirmed'', [''preparing'', ''cancelled'']),
      (''preparing'', [''ready'', ''cancelled'']),
      (''ready'', [''out_for_delivery'', ''delivered'']),
      (''out_for_delivery'', [''delivered''])]"

text \<open>
  The test \<^verbatim>\<open>order.status in valid_transitions and new_status in
  valid_transitions.get(order.status, [])\<close>; the form field may be absent.
\<close>

definition transition_allowed :: "string \<Rightarrow> string option \<Rightarrow> bool" where
  "transition_allowed current new_status =
     (case new_status of
        None \<Rightarrow> False
      | Some new \<Rightarrow>
          current \<in> set (map fst valid_transitions)
            \<and> new \<in> set (case map_of valid_transitions current of None \<Rightarrow> [] | Some targets \<Rightarrow> targets))"

datatype update_response = Update_Not_Found | Status_Updated | Invalid_Transition

text \<open>
  \<^verbatim>\<open>update_order_status(order_id)\<close> for a baker whose bakery has key \<open>bakery_id\<close>; \<open>now\<close> is
  the clock read for \<^verbatim>\<open>delivered_at\<close>.
\<close>

definition update_order_status ::
  "db \<Rightarrow> int \<Rightarrow> int \<Rightarrow> string option \<Rightarrow> string \<Rightarrow> datetime \<Rightarrow> update_response \<times> db" where
  "update_order_status d bakery_id order_id new_status notes now =
     (case find (\<lambda>x. o_id x = order_id \<and> o_bakery_id x = bakery_id) (orders d) of
        None \<Rightarrow> (Update_Not_Found, d)
      | Some ord \<Rightarrow>
          (case new_status of
             None \<Rightarrow> (Invalid_Transition, d)
           | Some new \<Rightarrow>
               if transition_allowed (status ord) new_status then
                 (Status_Updated,
                  d\<lparr>orders := map (\<lambda>x. if o_id x = o_id ord
                                         then x\<lparr>status := new,
                                                delivered_at := (if new = ''delivered'' then Some now
                                                                 else delivered_at x)\<rparr>
                                         else x) (orders d),
                    status_history := status_history d
                      @ [\<lparr>h_order_id = o_id ord, h_status = new, h_notes = Some notes\<rparr>],
                    notifications := notifications d
                      @ [create_order_notification (customer_id ord) (order_number ord) new]\<rparr>)
               else (Invalid_Transition, d)))"

text \<open>
  The transition table in the words of the specification, as pairs (current, new).
\<close>

definition transition_table :: "(string \<times> string) set" where
  "transition_table =
     {(''pending'', ''confirmed''), (''pending'', ''cancelled''),
      (''confirmed'', ''preparing''), (''confirmed'', ''cancelled''),
      (''preparing'', ''ready''), (''preparing'', ''cancelled''),
      (''ready'', ''out_for_delivery''), (''ready'', ''delivered''),
      (''out_for_delivery'', ''delivered'')}"

text \<open>The history rows of one order, in insertion order.\<close>

definition history_of :: "db \<Rightarrow> int \<Rightarrow> order_status_history list" where
  "history_of d oid = filter (\<lambda>h. h_order_id h = oid) (status_history d)"

section \<open>Cart (src/app/routes/cart.py)\<close>

text \<open>
  One POST or GET of \<^verbatim>\<open>/cart/add\<close>: \<^verbatim>\<open>product_id\<close> and \<^verbatim>\<open>quantity\<close> are read with
  \<^verbatim>\<open>type=int\<close> (the quantity is 1 when the field is absent or not a number), and
  \<^verbatim>\<open>replace_cart\<close> is the truth value of its field.
\<close>

record add_call =
  ac_user :: int
  ac_method :: http_method
  ac_product_id :: "int option"
  ac_quantity :: int
  ac_special_instructions :: string
  ac_replace_cart :: bool

datatype add_response =
    Add_Redirect
  | Add_Not_Found
  | Product_Not_Available
  | Confirm_Replace
  | Added_To_Cart
  | Add_Server_Error

text \<open>Lines 72--83 of \<^verbatim>\<open>add_to_cart\<close>: the row found is changed, or a new row is added.\<close>

definition put_in_cart :: "cart_item list \<Rightarrow> add_call \<Rightarrow> int \<Rightarrow> cart_item list" where
  "put_in_cart rows call pid =
     (case find (\<lambda>ci. ci_user_id ci = ac_user call \<and> ci_product_id ci = pid) rows of
        Some found \<Rightarrow>
          map (\<lambda>ci. if ci_id ci = ci_id found
                     then ci\<lparr>ci_quantity := ci_quantity ci + ac_quantity call,
                            ci_special_instructions :=
                              (if ac_special_instructions call \<noteq> []
                               then Some (ac_special_instructions call)
                               else ci_special_instructions ci)\<rparr>
                     else ci) rows
      | None \<Rightarrow>
          rows @ [\<lparr>ci_id = fresh_id (map ci_id rows), ci_user_id = ac_user call,
                   ci_product_id = pid, ci_quantity = ac_quantity call,
                   ci_special_instructions = Some (ac_special_instructions call)\<rparr>])"

definition add_to_cart :: "db \<Rightarrow> add_call \<Rightarrow> add_response \<times> db" where
  "add_to_cart d call =
     (if ac_method call = GET then (Add_Redirect, d)
      else
        (case ac_product_id call of
           None \<Rightarrow> (Add_Not_Found, d)
         | Some pid \<Rightarrow>
             (case get_product (products d) pid of
                None \<Rightarrow> (Add_Not_Found, d)
              | Some wanted \<Rightarrow>
                  if \<not> is_available wanted then (Product_Not_Available, d)
                  else
                    (case get_bakery (bakeries d) (p_bakery_id wanted) of
                       None \<Rightarrow> (Add_Server_Error, d)
                     | Some bk \<Rightarrow>
                         if \<not> is_approved bk then (Product_Not_Available, d)
                         else
                           (case user_cart d (ac_user call) of
                              [] \<Rightarrow>
                                (Added_To_Cart, d\<lparr>cart_items := put_in_cart (cart_items d) call pid\<rparr>)
                            | existing # others \<Rightarrow>
                                (case get_product (products d) (ci_product_id existing) of
                                   None \<Rightarrow> (Add_Server_Error, d)
                                 | Some other \<Rightarrow>
                                     if p_bakery_id other \<noteq> p_bakery_id wanted then
                                       (if \<not> ac_replace_cart call then (Confirm_Replace, d)
                                        else
                                          (Added_To_Cart,
                                           d\<lparr>cart_items :=
                                               put_in_cart (clear_user_cart (ac_user call) (cart_items d))
                                                 call pid\<rparr>))
                                     else
                                       (Added_To_Cart,
                                        d\<lparr>cart_items := put_in_cart (cart_items d) call pid\<rparr>)))))))"

datatype update_cart_response =
    Item_Not_Found
  | Item_Removed
  | Cart_Updated
  | Update_Server_Error

text \<open>
  \<^verbatim>\<open>update_cart\<close>: \<^verbatim>\<open>item_id\<close> and \<^verbatim>\<open>quantity\<close> are read with \<^verbatim>\<open>type=int\<close> and no default;
  comparing an absent quantity with 0 is a \<^verbatim>\<open>TypeError\<close>.
\<close>

definition update_cart :: "db \<Rightarrow> int \<Rightarrow> int option \<Rightarrow> int option \<Rightarrow> update_cart_response \<times> db" where
  "update_cart d user item_id quantity =
     (case item_id of
        None \<Rightarrow> (Item_Not_Found, d)
      | Some iid \<Rightarrow>
          (case find (\<lambda>ci. ci_id ci = iid \<and> ci_user_id ci = user) (cart_items d) of
             None \<Rightarrow> (Item_Not_Found, d)
           | Some found \<Rightarrow>
               (case quantity of
                  None \<Rightarrow> (Update_Server_Error, d)
                | Some q \<Rightarrow>
                    if q \<le> 0 then
                      (Item_Removed,
                       d\<lparr>cart_items := filter (\<lambda>ci. ci_id ci \<noteq> ci_id found) (cart_items d)\<rparr>)
                    else
                      (Cart_Updated,
                       d\<lparr>cart_items := map (\<lambda>ci. if ci_id ci = ci_id found
                                                  then ci\<lparr>ci_quantity := q\<rparr> else ci)
                                             (cart_items d)\<rparr>))))"

text \<open>The invariant of the cart table: every stored row has a positive quantity.\<close>

definition cart_positive :: "db \<Rightarrow> bool" where
  "cart_positive d = list_all (\<lambda>ci. 0 < ci_quantity ci) (cart_items d)"

section \<open>Bakery rating (src/app/models/bakery.py)\<close>

text \<open>
  \<^verbatim>\<open>Bakery.update_rating(self)\<close> over the review table: \<^verbatim>\<open>self.reviews\<close> are the reviews
  whose \<^verbatim>\<open>bakery_id\<close> is the bakery's key; the ratings are integers and \<^verbatim>\<open>/\<close> is true
  division.
\<close>

definition update_rating :: "review list \<Rightarrow> bakery \<Rightarrow> bakery" where
  "update_rating rs b =
     (let visible = filter (\<lambda>r. r_bakery_id r = b_id b \<and> is_visible r) rs in
        if visible \<noteq> []
        then b\<lparr>rating := of_int (sum_list (map r_rating visible)) / of_nat (length visible),
               total_reviews := int (length visible)\<rparr>
        else b\<lparr>rating := 0, total_reviews := 0\<rparr>)"

datatype toggle_response = Review_Not_Found | Review_Toggled | Toggle_Server_Error

text \<open>\<^verbatim>\<open>toggle_review\<close> (src/app/routes/admin.py): flip the flag, then recompute the rating.\<close>

definition toggle_review :: "db \<Rightarrow> int \<Rightarrow> toggle_response \<times> db" where
  "toggle_review d review_id =
     (case find (\<lambda>r. r_id r = review_id) (reviews d) of
        None \<Rightarrow> (Review_Not_Found, d)
      | Some rv \<Rightarrow>
          (let reviews' = map (\<lambda>r. if r_id r = r_id rv then r\<lparr>is_visible := \<not> is_visible r\<rparr> else r)
                            (reviews d)
           in
             (case get_bakery (bakeries d) (r_bakery_id rv) of
                None \<Rightarrow> (Toggle_Server_Error, d)
              | Some bk \<Rightarrow>
                  (Review_Toggled,
                   d\<lparr>reviews := reviews',
                     bakeries := map (\<lambda>b. if b_id b = b_id bk then update_rating reviews' b else b)
                                   (bakeries d)\<rparr>))))"

section \<open>Coupon validation route (src/app/routes/api.py)\<close>

datatype validate_response =
    Invalid_Coupon_Code
  | Coupon_Applies money
  | Coupon_Rejected validity_message

definition validate_coupon ::
  "db \<Rightarrow> string \<Rightarrow> money \<Rightarrow> int option \<Rightarrow> datetime \<Rightarrow> validate_response \<times> db" where
  "validate_coupon d code_field order_amount bakery_id now =
     (case find (\<lambda>c. c_code c = upper code_field) (coupons d) of
        None \<Rightarrow> (Invalid_Coupon_Code, d)
      | Some coupon \<Rightarrow>
          (case is_valid coupon now order_amount bakery_id of
             (True, message) \<Rightarrow> (Coupon_Applies (calculate_discount coupon order_amount), d)
           | (False, message) \<Rightarrow> (Coupon_Rejected message, d)))"

section \<open>Example data\<close>

text \<open>
  The end-to-end scenario of the specification: user 7 has product A (price 180) twice
  and product B (price 85) once in the cart, the bakery's delivery fee is 30.
\<close>

definition example_time :: datetime where
  "example_time = \<lparr>year = 2024, month = 5, day = 14, hour = 23, minute = 1, second = 7, microsecond = 0\<rparr>"

definition example_random :: "128 word" where
  "example_random = 0xA1B2C3D4E5F60718293A4B5C6D7E8F90"

definition product_a :: product where
  "product_a = \<lparr>p_id = 1, p_bakery_id = 1, p_name = ''Sourdough'', price = 180,
                 discount_price = None, stock_quantity = 10, is_available = True\<rparr>"

definition product_b :: product where
  "product_b = \<lparr>p_id = 2, p_bakery_id = 1, p_name = ''Croissant'', price = 85,
                 discount_price = None, stock_quantity = 5, is_available = True\<rparr>"

definition example_bakery :: bakery where
  "example_bakery = \<lparr>b_id = 1, b_min_order_amount = 100, b_delivery_fee = 30,
                      is_approved = True, rating = 0, total_reviews = 0\<rparr>"

definition example_db :: db where
  "example_db =
     \<lparr>products = [product_a, product_b],
      cart_items =
        [\<lparr>ci_id = 1, ci_user_id = 7, ci_product_id = 1, ci_quantity = 2,
          ci_special_instructions = None\<rparr>,
         \<lparr>ci_id = 2, ci_user_id = 7, ci_product_id = 2, ci_quantity = 1,
          ci_special_instructions = None\<rparr>],
      bakeries = [example_bakery],
      addresses = [\<lparr>a_id = 3, a_user_id = 7\<rparr>],
      coupons = [example_coupon],
      orders = [],
      order_items = [],
      status_history = [],
      notifications = [],
      reviews = []\<rparr>"

definition example_call :: checkout_call where
  "example_call =
     \<lparr>k_user = 7, k_method = POST, k_address_id = Some 3, k_payment_method = ''cod'',
      k_special_instructions = [], k_coupon_code = [],
      k_now_coupon = example_time, k_now_number = example_time, k_random = example_random\<rparr>"

text \<open>The same cart when only one unit of product A is left and three are ordered.\<close>

definition low_stock_db :: db where
  "low_stock_db =
     example_db
       \<lparr>products := [product_a\<lparr>stock_quantity := 1\<rparr>, product_b],
        cart_items :=
          [\<lparr>ci_id = 1, ci_user_id = 7, ci_product_id = 1, ci_quantity = 3,
            ci_special_instructions = None\<rparr>]\<rparr>"

text \<open>An empty cart for user 7, and a request to add a negative number of product A.\<close>

definition empty_cart_db :: db where
  "empty_cart_db = example_db\<lparr>cart_items := []\<rparr>"

definition negative_add :: add_call where
  "negative_add =
     \<lparr>ac_user = 7, ac_method = POST, ac_product_id = Some 1, ac_quantity = - 2,
      ac_special_instructions = [], ac_replace_cart = False\<rparr>"

text \<open>Three visible reviews of the example bakery, rated 5, 4 and 3.\<close>

definition review_db :: db where
  "review_db =
     example_db
       \<lparr>reviews :=
          [\<lparr>r_id = 1, r_bakery_id = 1, r_rating = 5, is_visible = True\<rparr>,
           \<lparr>r_id = 2, r_bakery_id = 1, r_rating = 4, is_visible = True\<rparr>,
           \<lparr>r_id = 3, r_bakery_id = 1, r_rating = 3, is_visible = True\<rparr>]\<rparr>"

text \<open>The database after the checkout of the example.\<close>

definition placed_db :: db where
  "placed_db = snd (checkout example_db example_call)"

text \<open>The example with a bakery minimum of 1000, above the cart's subtotal of 445.\<close>

definition high_minimum_db :: db where
  "high_minimum_db = example_db\<lparr>bakeries := [example_bakery\<lparr>b_min_order_amount := 1000\<rparr>]\<rparr>"

text \<open>A checkout with an address key (99) that is not the user's.\<close>

definition foreign_address_call :: checkout_call where
  "foreign_address_call = example_call\<lparr>k_address_id := Some 99\<rparr>"

text \<open>The example with the coupon switched off, and a checkout that names it.\<close>

definition inactive_coupon_db :: db where
  "inactive_coupon_db = example_db\<lparr>coupons := [example_coupon\<lparr>c_is_active := False\<rparr>]\<rparr>"

definition coupon_call :: checkout_call where
  "coupon_call = example_call\<lparr>k_coupon_code := ''welcome10''\<rparr>"

text \<open>
  A coupon on which every check fails on 2024-05-14 for an order of 100 at bakery 1:
  switched off, valid from 2025, valid until 2023, five uses of five, minimum 200,
  scoped to bakery 2.
\<close>

definition worst_coupon :: coupon where
  "worst_coupon =
     \<lparr>c_id = 2, c_bakery_id = Some 2, c_code = ''NEVER'',
      discount_type = ''fixed'', discount_value = 50, c_min_order_amount = 200,
      max_discount = None, usage_limit = Some 5, used_count = 5,
      valid_from = Some (example_time\<lparr>year := 2025\<rparr>),
      valid_until = Some (example_time\<lparr>year := 2023\<rparr>),
      c_is_active = False\<rparr>"

text \<open>
  A percentage coupon as the coupon forms store it when the value field holds 150 and
  the field of the maximum discount is left empty, and the example with this coupon.
\<close>

definition generous_coupon :: coupon where
  "generous_coupon = example_coupon\<lparr>discount_value := 150, max_discount := None\<rparr>"

definition generous_coupon_db :: db where
  "generous_coupon_db = example_db\<lparr>coupons := [generous_coupon]\<rparr>"

section \<open>Notions used in the statements\<close>

text \<open>Two product rows that differ at most in their stock.\<close>

definition stock_only :: "product \<Rightarrow> product \<Rightarrow> bool" where
  "stock_only p p' = (p' = p\<lparr>stock_quantity := stock_quantity p'\<rparr>)"

text \<open>A product's stock does not fall below zero: it keeps its key and, if it was not
  negative before, it is not negative afterwards.\<close>

definition stock_kept_nonneg :: "product \<Rightarrow> product \<Rightarrow> bool" where
  "stock_kept_nonneg p p' = (p_id p' = p_id p \<and> (0 \<le> stock_quantity p \<longrightarrow> 0 \<le> stock_quantity p'))"

text \<open>The order item that checkout makes of a cart item, given the product table.\<close>

definition item_of :: "int \<Rightarrow> product list \<Rightarrow> cart_item \<Rightarrow> order_item \<Rightarrow> bool" where
  "item_of oid ps ci it =
     (case get_product ps (ci_product_id ci) of
        None \<Rightarrow> False
      | Some p \<Rightarrow>
          it = \<lparr>oi_order_id = oid, oi_product_id = ci_product_id ci, oi_product_name = p_name p,
                oi_quantity = ci_quantity ci, unit_price = current_price p,
                oi_subtotal = current_price p * of_int (ci_quantity ci),
                oi_special_instructions = ci_special_instructions ci\<rparr>)"

text \<open>The bakery of the first cart item and the subtotal of the cart, as checkout reads them.\<close>

definition cart_bakery :: "db \<Rightarrow> int \<Rightarrow> bakery option" where
  "cart_bakery d user =
     (case user_cart d user of
        [] \<Rightarrow> None
      | first # others \<Rightarrow>
          (case get_product (products d) (ci_product_id first) of
             None \<Rightarrow> None
           | Some p \<Rightarrow> get_bakery (bakeries d) (p_bakery_id p)))"

definition cart_subtotal :: "db \<Rightarrow> int \<Rightarrow> money" where
  "cart_subtotal d user = py_sum (map (ci_subtotal (products d)) (user_cart d user))"

text \<open>The arithmetic mean of integer ratings, and the visible reviews of a bakery.\<close>

definition arithmetic_mean :: "int list \<Rightarrow> rat" where
  "arithmetic_mean xs = of_int (sum_list xs) / of_nat (length xs)"

definition visible_reviews :: "review list \<Rightarrow> bakery \<Rightarrow> review list" where
  "visible_reviews rs b = filter (\<lambda>r. r_bakery_id r = b_id b \<and> is_visible r) rs"

text \<open>
  The cart line of the specification: the current price of the cart item's product times
  the quantity (the product is looked up in the table; the statements that use it also
  say that the product is there).
\<close>

definition line_total :: "product list \<Rightarrow> cart_item \<Rightarrow> money" where
  "line_total ps ci = current_price (the (get_product ps (ci_product_id ci))) * of_int (ci_quantity ci)"

text \<open>The address belongs to the user.\<close>

definition owns_address :: "db \<Rightarrow> int \<Rightarrow> int \<Rightarrow> bool" where
  "owns_address d user addr = (\<exists>a \<in> set (addresses d). a_id a = addr \<and> a_user_id a = user)"

text \<open>
  The coupon code of the call names no coupon that is valid for the cart: either no
  coupon has this code, or \<^verbatim>\<open>is_valid\<close> rejects the one that has.
\<close>

definition coupon_rejected :: "db \<Rightarrow> checkout_call \<Rightarrow> bool" where
  "coupon_rejected d call =
     (case find (\<lambda>c. c_code c = upper (k_coupon_code call)) (coupons d) of
        None \<Rightarrow> True
      | Some c \<Rightarrow>
          (case cart_bakery d (k_user call) of
             None \<Rightarrow> True
           | Some bk \<Rightarrow>
               \<not> fst (is_valid c (k_now_coupon call) (cart_subtotal d (k_user call)) (Some (b_id bk)))))"

text \<open>An answer of checkout without the flashed coupon warning.\<close>

fun without_warning :: "checkout_response \<Rightarrow> checkout_response" where
  "without_warning (Order_Placed number warning) = Order_Placed number None"
| "without_warning other = other"

text \<open>The answer is a placed order.\<close>

fun is_placed :: "checkout_response \<Rightarrow> bool" where
  "is_placed (Order_Placed number warning) = True"
| "is_placed other = False"

section \<open>Coupon discount\<close>

text \<open>
  Claim C4 at a failing input. The bakery's coupon WELCOME10 is a percentage coupon of
  value 150 without a maximum discount. On the example cart (subtotal 445, at least the
  coupon's minimum of 200) \<^verbatim>\<open>is_valid\<close> accepts it, \<^verbatim>\<open>calculate_discount\<close> returns
  667.5, which is more than the subtotal, and checkout stores an order with discount
  667.5 and total -192.5. The percentage branch has no bound at the order amount, while
  the fixed branch has. Every number of this input, and every product, quotient and sum
  taken of them, is a binary floating-point number, so the figures are those of the code.
  The capped example of the claim does hold: 10 percent of 2000 with a maximum of 100
  gives 100.
\<close>

theorem percentage_discount_exceeds_subtotal:
  "cart_subtotal generous_coupon_db 7 = 445
   \<and> is_valid generous_coupon example_time 445 (Some 1) = (True, Coupon_Is_Valid)
   \<and> calculate_discount generous_coupon 445 = 1335 / 2
   \<and> \<not> calculate_discount generous_coupon 445 \<le> 445
   \<and> fst (checkout generous_coupon_db coupon_call) = Order_Placed ''LC202405142301A1B2C3'' None
   \<and> map (\<lambda>ord. (o_subtotal ord, o_delivery_fee ord, o_discount ord, total_amount ord))
         (orders (snd (checkout generous_coupon_db coupon_call)))
       = [(445, 30, 1335 / 2, - 385 / 2)]
   \<and> calculate_discount example_coupon 2000 = 100"
  by code_simp

section \<open>Coupon validation\<close>

lemma dt_less_years:
  "dt_less example_time (example_time\<lparr>year := 2025\<rparr>)"
  "dt_less (example_time\<lparr>year := 2023\<rparr>) example_time"
  by (simp_all add: dt_less_def dt_fields_def example_time_def)

text \<open>
  Claim C6. For every coupon, clock reading, order amount and bakery, \<^verbatim>\<open>is_valid\<close>
  returns the reason of the first condition that holds in the list of the specification
  (switched off, not yet valid, expired, usage limit reached, below the minimum, other
  bakery), and 'valid' when none holds. It returns this pair and nothing else, and the
  validation route, which calls it, hands back the database it was given, so no
  \<open>used_count\<close> changes. On the coupon on which every check fails the answers are, as the
  failing checks are repaired one by one: not active, not yet valid, expired, usage limit
  reached, minimum 200, not valid for this bakery, valid.
\<close>

theorem is_valid_check_order:
  "is_valid c now order_amount bakery_id = first_failing (spec_checks c now order_amount bakery_id)
   \<and> snd (validate_coupon d code order_amount bakery_id now) = d
   \<and> is_valid worst_coupon example_time 100 (Some 1) = (False, Coupon_Not_Active)
   \<and> is_valid (worst_coupon\<lparr>c_is_active := True\<rparr>) example_time 100 (Some 1)
       = (False, Coupon_Not_Yet_Valid)
   \<and> is_valid (worst_coupon\<lparr>c_is_active := True, valid_from := None\<rparr>) example_time 100 (Some 1)
       = (False, Coupon_Expired)
   \<and> is_valid (worst_coupon\<lparr>c_is_active := True, valid_from := None, valid_until := None\<rparr>)
         example_time 100 (Some 1)
       = (False, Coupon_Limit_Reached)
   \<and> is_valid (worst_coupon\<lparr>c_is_active := True, valid_from := None, valid_until := None,
                              used_count := 4\<rparr>) example_time 100 (Some 1)
       = (False, Coupon_Minimum 200)
   \<and> is_valid (worst_coupon\<lparr>c_is_active := True, valid_from := None, valid_until := None,
                              used_count := 4\<rparr>) example_time 200 (Some 1)
       = (False, Coupon_Wrong_Bakery)
   \<and> is_valid (worst_coupon\<lparr>c_is_active := True, valid_from := None, valid_until := None,
                              used_count := 4\<rparr>) example_time 200 (Some 2)
       = (True, Coupon_Is_Valid)"
proof (intro conjI)
  show "is_valid c now order_amount bakery_id
          = first_failing (spec_checks c now order_amount bakery_id)"
    by (auto simp: is_valid_def spec_checks_def check_not_active_def check_not_yet_valid_def
        check_expired_def check_limit_reached_def check_below_minimum_def
        check_wrong_bakery_def split: option.splits)
  show "snd (validate_coupon d code order_amount bakery_id now) = d"
    by (simp add: validate_coupon_def split: option.splits prod.splits bool.splits)
qed (simp_all add: is_valid_def worst_coupon_def check_not_active_def check_not_yet_valid_def
      check_expired_def check_limit_reached_def check_below_minimum_def check_wrong_bakery_def
      dt_less_years)

section \<open>Checkout: structure of the route\<close>

lemma update_product_rel:
  assumes "\<And>q. R q q" and "\<And>q. R q (f q)"
  shows "list_all2 R ps (update_product pid f ps)"
  unfolding update_product_def
  by (induction ps) (simp_all add: assms)

lemma reduce_stock_nonneg: "stock_kept_nonneg q (snd (reduce_stock q n))"
  by (simp add: stock_kept_nonneg_def reduce_stock_def)

lemma stock_kept_nonneg_refl: "stock_kept_nonneg q q"
  by (simp add: stock_kept_nonneg_def) 

lemma stock_kept_nonneg_trans:
  "stock_kept_nonneg a b \<Longrightarrow> stock_kept_nonneg b c \<Longrightarrow> stock_kept_nonneg a c"
  by (auto simp: stock_kept_nonneg_def)

lemma place_items_nonneg:
  "place_items oid cart ps acc = Some (ps', items) \<Longrightarrow> list_all2 stock_kept_nonneg ps ps'"
proof (induction cart arbitrary: ps acc)
  case Nil
  then show ?case by (simp add: list_all2_refl stock_kept_nonneg_refl)
next
  case (Cons ci rest)
  let ?ps1 = "update_product (ci_product_id ci) (\<lambda>q. snd (reduce_stock q (ci_quantity ci))) ps"
  from Cons.prems obtain acc1 where "place_items oid rest ?ps1 acc1 = Some (ps', items)"
    by (auto split: option.splits)
  then have later: "list_all2 stock_kept_nonneg ?ps1 ps'"
    by (rule Cons.IH)
  have now: "list_all2 stock_kept_nonneg ps ?ps1"
    by (rule update_product_rel) (simp_all add: stock_kept_nonneg_refl reduce_stock_nonneg)
  show ?case
    by (rule list_all2_trans[OF stock_kept_nonneg_trans now later])
qed

lemma checkout_unfold:
  "checkout d call =
     (if user_cart d (k_user call) = [] then (Cart_Is_Empty, d)
      else
        (case cart_bakery d (k_user call) of
           None \<Rightarrow> (Server_Error, d)
         | Some bk \<Rightarrow>
             if cart_subtotal d (k_user call) < b_min_order_amount bk
               then (Minimum_Not_Reached (b_min_order_amount bk), d)
             else if k_method call = GET then (Checkout_Page, d)
             else
               (case k_address_id call of
                  None \<Rightarrow> (Address_Not_Valid, d)
                | Some addr \<Rightarrow>
                    if find (\<lambda>a. a_id a = addr \<and> a_user_id a = k_user call) (addresses d) = None
                      then (Address_Not_Valid, d)
                    else
                      place_order d call (user_cart d (k_user call)) bk
                        (cart_subtotal d (k_user call)) addr
                        (apply_coupon (coupons d) (k_coupon_code call) (k_now_coupon call)
                           (cart_subtotal d (k_user call)) (b_id bk)))))"
  by (auto simp: checkout_def cart_bakery_def cart_subtotal_def Let_def
      split: list.splits option.splits)

lemma place_order_unfold:
  "place_order d call cart bk subtotal addr (discount, coupons', warning) =
     (case place_items (fresh_id (map o_id (orders d))) cart (products d) [] of
        None \<Rightarrow> (Server_Error, d)
      | Some (products', items) \<Rightarrow>
          (Order_Placed (generate_order_number (k_now_number call) (k_random call)) warning,
           d\<lparr>products := products',
             cart_items := clear_user_cart (k_user call) (cart_items d),
             coupons := coupons',
             orders := orders d
               @ [\<lparr>o_id = fresh_id (map o_id (orders d)),
                   order_number = generate_order_number (k_now_number call) (k_random call),
                   customer_id = k_user call,
                   o_bakery_id = b_id bk, delivery_address_id = Some addr,
                   o_subtotal = subtotal, o_delivery_fee = b_delivery_fee bk, o_discount = discount,
                   total_amount = subtotal + b_delivery_fee bk - discount, status = ''pending'',
                   payment_method = k_payment_method call, cancellation_reason = None,
                   o_special_instructions = k_special_instructions call, delivered_at = None\<rparr>],
             order_items := order_items d @ items,
             status_history := status_history d
               @ [\<lparr>h_order_id = fresh_id (map o_id (orders d)), h_status = ''pending'',
                   h_notes = Some ''Order placed''\<rparr>],
             notifications := notifications d
               @ [(create_order_notification (k_user call)
                     (generate_order_number (k_now_number call) (k_random call)) ''pending'')
                    \<lparr>n_message := ''Your order #''
                         @ generate_order_number (k_now_number call) (k_random call)
                         @ '' has been placed successfully!''\<rparr>]\<rparr>))"
  by (simp add: place_order_def Let_def)

lemma place_order_products:
  "list_all2 stock_kept_nonneg (products d)
     (products (snd (place_order d call cart bk subtotal addr applied)))"
proof (cases applied)
  case (fields discount coupons' warning)
  show ?thesis
  proof (cases "place_items (fresh_id (map o_id (orders d))) cart (products d) []")
    case None
    with fields show ?thesis
      by (simp add: place_order_unfold list_all2_refl stock_kept_nonneg_refl)
  next
    case (Some res)
    obtain ps' items where res: "res = (ps', items)" by (cases res)
    with Some have "list_all2 stock_kept_nonneg (products d) ps'"
      by (auto dest: place_items_nonneg)
    with Some res fields show ?thesis
      by (simp add: place_order_unfold)
  qed
qed

text \<open>
  Claim C10. \<^verbatim>\<open>reduce_stock\<close> takes the quantity off the stock and returns \<^verbatim>\<open>True\<close>
  when the stock is at least the quantity, and otherwise returns \<^verbatim>\<open>False\<close> and leaves the
  product as it is. Whatever checkout answers, every product keeps its place and key in
  the table, and a product whose stock was not negative before checkout does not have a
  negative stock after it.
\<close>

theorem reduce_stock_never_negative:
  "reduce_stock p q =
     (if q \<le> stock_quantity p then (True, p\<lparr>stock_quantity := stock_quantity p - q\<rparr>) else (False, p))
   \<and> list_all2 stock_kept_nonneg (products d) (products (snd (checkout d call)))"
  by (simp add: reduce_stock_def checkout_unfold place_order_products
      list_all2_refl stock_kept_nonneg_refl split: option.splits)

text \<open>
  At the low-stock example (stock 1, three ordered) the decrement is skipped and the
  stock stays 1; at the plain example the stocks 10 and 5 become 8 and 4.
\<close>

theorem reduce_stock_never_negative_witness:
  "list_all2 stock_kept_nonneg (products low_stock_db) (products (snd (checkout low_stock_db example_call)))
   \<and> map stock_quantity (products low_stock_db) = [1, 5]
   \<and> map stock_quantity (products (snd (checkout low_stock_db example_call))) = [1, 5]
   \<and> map stock_quantity (products (snd (checkout example_db example_call))) = [8, 4]"
proof -
  have "map stock_quantity (products low_stock_db) = [1, 5]"
    by code_simp
  moreover have "map stock_quantity (products (snd (checkout low_stock_db example_call))) = [1, 5]"
    by code_simp
  moreover have "map stock_quantity (products (snd (checkout example_db example_call))) = [8, 4]"
    by code_simp
  ultimately show ?thesis
    using reduce_stock_never_negative [of product_a 1 low_stock_db example_call] by simp
qed

section \<open>Rating, transitions, cart and cancellation\<close>

lemma example_order_number:
  "generate_order_number example_time example_random = ''LC202405142301A1B2C3''"
  by code_simp

text \<open>
  Claim C8. \<^verbatim>\<open>update_rating\<close> sets the rating to the arithmetic mean of the ratings of
  the bakery's visible reviews and \<open>total_reviews\<close> to their number, and to 0 and 0 when
  there is none; nothing else of the bakery changes. Visible ratings 5, 4, 3 give 4 and 3;
  after the review rated 3 is hidden through \<^verbatim>\<open>toggle_review\<close>, the bakery has 9/2 and 2.
\<close>

theorem update_rating_mean:
  "update_rating rs b =
     (if visible_reviews rs b = [] then b\<lparr>rating := 0, total_reviews := 0\<rparr>
      else b\<lparr>rating := arithmetic_mean (map r_rating (visible_reviews rs b)),
             total_reviews := int (length (visible_reviews rs b))\<rparr>)
   \<and> map r_rating (visible_reviews (reviews review_db) example_bakery) = [5, 4, 3]
   \<and> rating (update_rating (reviews review_db) example_bakery) = 4
   \<and> total_reviews (update_rating (reviews review_db) example_bakery) = 3
   \<and> fst (toggle_review review_db 3) = Review_Toggled
   \<and> map r_rating (visible_reviews (reviews (snd (toggle_review review_db 3))) example_bakery) = [5, 4]
   \<and> map rating (bakeries (snd (toggle_review review_db 3))) = [9 / 2]
   \<and> map total_reviews (bakeries (snd (toggle_review review_db 3))) = [2]"
proof (intro conjI)
  show "update_rating rs b =
     (if visible_reviews rs b = [] then b\<lparr>rating := 0, total_reviews := 0\<rparr>
      else b\<lparr>rating := arithmetic_mean (map r_rating (visible_reviews rs b)),
             total_reviews := int (length (visible_reviews rs b))\<rparr>)"
    by (simp add: update_rating_def visible_reviews_def arithmetic_mean_def Let_def)
qed (simp_all add: update_rating_def visible_reviews_def toggle_review_def review_db_def
      example_db_def example_bakery_def get_bakery_def Let_def)

text \<open>
  Claim C3. The test of \<^verbatim>\<open>update_order_status\<close> accepts exactly the pairs of the table
  (and no absent status). The route updates the order only for such a pair; for every
  other request on an order it finds, it answers 'Invalid status transition' and returns
  the database as it was, so the status and the history are unchanged. \<^verbatim>\<open>cancel_order\<close>
  does anything only when the status is 'pending' or 'confirmed', and otherwise returns
  the database as it was.
\<close>

theorem transitions_follow_table:
  "(transition_allowed current (Some new) \<longleftrightarrow> (current, new) \<in> transition_table)
   \<and> \<not> transition_allowed current None
   \<and> (can_cancel ord \<longleftrightarrow> status ord = ''pending'' \<or> status ord = ''confirmed'')
   \<and> update_order_status d bakery_id order_id new_status notes now =
       (case find (\<lambda>x. o_id x = order_id \<and> o_bakery_id x = bakery_id) (orders d) of
          None \<Rightarrow> (Update_Not_Found, d)
        | Some ord \<Rightarrow>
            if (\<exists>new. new_status = Some new \<and> (status ord, new) \<in> transition_table)
            then (Status_Updated, snd (update_order_status d bakery_id order_id new_status notes now))
            else (Invalid_Transition, d))
   \<and> cancel_order d user number reason =
       (case find (\<lambda>x. order_number x = number \<and> customer_id x = user) (orders d) of
          None \<Rightarrow> (Cancel_Not_Found, d)
        | Some ord \<Rightarrow>
            if status ord = ''pending'' \<or> status ord = ''confirmed''
            then cancel_order d user number reason
            else (Cannot_Be_Cancelled, d))"
proof (intro conjI)
  show allowed: "\<And>current new. transition_allowed current (Some new) \<longleftrightarrow> (current, new) \<in> transition_table"
    by (auto simp: transition_allowed_def valid_transitions_def transition_table_def)
  show "\<not> transition_allowed current None"
    by (simp add: transition_allowed_def)
  show cc: "\<And>ord. can_cancel ord \<longleftrightarrow> status ord = ''pending'' \<or> status ord = ''confirmed''"
    by (auto simp: can_cancel_def)
  show "update_order_status d bakery_id order_id new_status notes now =
       (case find (\<lambda>x. o_id x = order_id \<and> o_bakery_id x = bakery_id) (orders d) of
          None \<Rightarrow> (Update_Not_Found, d)
        | Some ord \<Rightarrow>
            if (\<exists>new. new_status = Some new \<and> (status ord, new) \<in> transition_table)
            then (Status_Updated, snd (update_order_status d bakery_id order_id new_status notes now))
            else (Invalid_Transition, d))"
    by (simp add: update_order_status_def allowed split: option.splits)
  show "cancel_order d user number reason =
       (case find (\<lambda>x. order_number x = number \<and> customer_id x = user) (orders d) of
          None \<Rightarrow> (Cancel_Not_Found, d)
        | Some ord \<Rightarrow>
            if status ord = ''pending'' \<or> status ord = ''confirmed''
            then cancel_order d user number reason
            else (Cannot_Be_Cancelled, d))"
    by (simp add: cancel_order_def cc split: option.splits)
qed

text \<open>
  Claim C7 at a failing input. With an empty cart (the invariant holds), a POST to
  \<^verbatim>\<open>/cart/add\<close> with quantity -2 is answered as a success and stores a cart row of
  quantity -2: \<^verbatim>\<open>add_to_cart\<close> does not test the sign of the quantity, as
  \<^verbatim>\<open>update_cart\<close> does.
\<close>

theorem add_to_cart_stores_negative:
  "cart_positive empty_cart_db
   \<and> fst (add_to_cart empty_cart_db negative_add) = Added_To_Cart
   \<and> map ci_quantity (cart_items (snd (add_to_cart empty_cart_db negative_add))) = [- 2]
   \<and> \<not> cart_positive (snd (add_to_cart empty_cart_db negative_add))"
  by (simp add: cart_positive_def add_to_cart_def put_in_cart_def empty_cart_db_def example_db_def
      negative_add_def get_product_def get_bakery_def user_cart_def product_a_def product_b_def
      example_bakery_def fresh_id_def)

text \<open>\<^verbatim>\<open>update_cart\<close>, for its part, keeps every stored quantity positive.\<close>

lemma update_cart_keeps_positive:
  "cart_positive d \<Longrightarrow> cart_positive (snd (update_cart d user item_id quantity))"
  by (auto simp: cart_positive_def update_cart_def list_all_iff split: option.splits)

text \<open>On one product, restoring a quantity after a decrement that took place is the identity.\<close>

lemma reduce_then_restore:
  "q \<le> stock_quantity p \<Longrightarrow> restore_stock (snd (reduce_stock p q)) q = p"
  by (simp add: reduce_stock_def restore_stock_def)

text \<open>
  Claim C2 at a failing input. One unit of product A is in stock and three are ordered:
  checkout places the order and skips the decrement (the stock stays 1), and cancelling
  the pending order adds the three units, so the stock ends at 4 and not at 1.
\<close>

theorem cancel_inflates_skipped_stock:
  "map stock_quantity (products low_stock_db) = [1, 5]
   \<and> fst (checkout low_stock_db example_call) = Order_Placed ''LC202405142301A1B2C3'' None
   \<and> map stock_quantity (products (snd (checkout low_stock_db example_call))) = [1, 5]
   \<and> fst (cancel_order (snd (checkout low_stock_db example_call)) 7 ''LC202405142301A1B2C3'' None)
       = Cancelled
   \<and> map stock_quantity
        (products (snd (cancel_order (snd (checkout low_stock_db example_call)) 7
                          ''LC202405142301A1B2C3'' None)))
       = [4, 5]"
  by code_simp

section \<open>Order number\<close>

lemma digit_chars_nth: "n < 10 \<Longrightarrow> digit_chars ! n \<in> set digit_chars"
  by (rule nth_mem) (simp add: digit_chars_def)

lemma digit_value_zero: "digit_value (CHR ''0'') = 0"
  by (simp add: digit_value_def digit_chars_def upt_rec)

lemma digit_value_nth: "n < 10 \<Longrightarrow> digit_value (digit_chars ! n) = n"
proof -
  assume "n < 10"
  then have "n \<in> {0, 1, 2, 3, 4, 5, 6, 7, 8, 9}" by auto
  then show ?thesis
    by (auto simp: digit_value_def digit_chars_def upt_rec)
qed

lemma decimal_digits: "set (decimal n) \<subseteq> set digit_chars"
proof (induction n rule: decimal.induct)
  case (1 n)
  show ?case
  proof (cases "n < 10")
    case True
    then show ?thesis
      using digit_chars_nth[of n] by (simp add: decimal.simps[of n])
  next
    case False
    moreover have "digit_chars ! (n mod 10) \<in> set digit_chars"
      by (rule digit_chars_nth) simp
    ultimately show ?thesis
      using 1 by (simp add: decimal.simps[of n])
  qed
qed

lemma decimal_length: "0 < k \<Longrightarrow> n < 10 ^ k \<Longrightarrow> length (decimal n) \<le> k"
proof (induction n arbitrary: k rule: decimal.induct)
  case (1 n)
  show ?case
  proof (cases "n < 10")
    case True
    with 1(2) show ?thesis by (simp add: decimal.simps[of n])
  next
    case False
    with 1(2) 1(3) have "1 < k"
      by (cases "k = 1") auto
    then obtain j where k: "k = Suc j" and j: "0 < j"
      by (cases k) auto
    from 1(3) k have "n div 10 < 10 ^ j"
      by (simp add: less_mult_imp_div_less mult.commute)
    with 1(1)[OF False j] have "length (decimal (n div 10)) \<le> j" .
    with False k show ?thesis by (simp add: decimal.simps[of n])
  qed
qed

lemma read_decimal_snoc: "read_decimal (s @ [c]) = 10 * read_decimal s + digit_value c"
  by (simp add: read_decimal_def)

lemma read_decimal_decimal: "read_decimal (decimal n) = n"
proof (induction n rule: decimal.induct)
  case (1 n)
  show ?case
  proof (cases "n < 10")
    case True
    then show ?thesis
      by (simp add: decimal.simps[of n] read_decimal_def digit_value_nth)
  next
    case False
    have "digit_value (digit_chars ! (n mod 10)) = n mod 10"
      by (rule digit_value_nth) simp
    with False 1 show ?thesis
      by (simp add: decimal.simps[of n] read_decimal_snoc)
  qed
qed

lemma read_decimal_zeros: "read_decimal (replicate k (CHR ''0'') @ s) = read_decimal s"
proof (induction k)
  case 0
  then show ?case by simp
next
  case (Suc k)
  then show ?case by (simp add: read_decimal_def digit_value_zero)
qed

lemma zero_pad_read: "read_decimal (zero_pad w n) = n"
  by (simp add: zero_pad_def read_decimal_zeros read_decimal_decimal)

lemma zero_pad_length: "0 < w \<Longrightarrow> n < 10 ^ w \<Longrightarrow> length (zero_pad w n) = w"
  using decimal_length[of w n] by (simp add: zero_pad_def)

lemma zero_pad_digits: "set (zero_pad w n) \<subseteq> set digit_chars"
  using decimal_digits[of n] by (auto simp: zero_pad_def digit_chars_def)

lemma hex_chars_upper: "n < 16 \<Longrightarrow> upper_char (hex_chars ! n) \<in> set ''0123456789ABCDEF''"
proof -
  assume "n < 16"
  then have "hex_chars ! n \<in> set hex_chars"
    by (intro nth_mem) (simp add: hex_chars_def)
  moreover have "\<forall>c \<in> set hex_chars. upper_char c \<in> set ''0123456789ABCDEF''"
    by (simp add: hex_chars_def upper_char_def)
  ultimately show ?thesis by blast
qed

lemma nibble_less: "unat ((w :: 128 word) AND 15) < 16"
proof -
  have "w AND 15 \<le> 15" by (rule word_and_le1)
  then have "unat (w AND 15) \<le> unat (15 :: 128 word)" by (simp add: word_le_nat_alt)
  then show ?thesis by simp
qed

lemma unique_id_format:
  "length (upper (take 6 (hex32 w))) = 6
   \<and> set (upper (take 6 (hex32 w))) \<subseteq> set ''0123456789ABCDEF''"
proof
  show "length (upper (take 6 (hex32 w))) = 6"
    by (simp add: upper_def hex32_def)
  have "set (upper (hex32 w)) \<subseteq> set ''0123456789ABCDEF''"
    unfolding upper_def hex32_def using hex_chars_upper[OF nibble_less] by auto
  moreover have "set (upper (take 6 (hex32 w))) \<subseteq> set (upper (hex32 w))"
    unfolding upper_def by (auto dest: in_set_takeD)
  ultimately show "set (upper (take 6 (hex32 w))) \<subseteq> set ''0123456789ABCDEF''"
    by blast
qed

lemma number_layout:
  assumes "length y = 4" "length m = 2" "length d = 2" "length h = 2" "length mi = 2" "length u = 6"
  shows "length (''LC'' @ y @ m @ d @ h @ mi @ u) = 20"
    and "take 2 (''LC'' @ y @ m @ d @ h @ mi @ u) = ''LC''"
    and "take 12 (drop 2 (''LC'' @ y @ m @ d @ h @ mi @ u)) = y @ m @ d @ h @ mi"
    and "take 4 (drop 2 (''LC'' @ y @ m @ d @ h @ mi @ u)) = y"
    and "take 2 (drop 6 (''LC'' @ y @ m @ d @ h @ mi @ u)) = m"
    and "take 2 (drop 8 (''LC'' @ y @ m @ d @ h @ mi @ u)) = d"
    and "take 2 (drop 10 (''LC'' @ y @ m @ d @ h @ mi @ u)) = h"
    and "take 2 (drop 12 (''LC'' @ y @ m @ d @ h @ mi @ u)) = mi"
    and "drop 14 (''LC'' @ y @ m @ d @ h @ mi @ u) = u"
  using assms by simp_all

text \<open>
  Claim C9. For every clock reading a \<^verbatim>\<open>datetime\<close> can hold and every random draw, the
  order number has 20 characters: the letters LC, then twelve decimal digits that read as
  the year (four digits), month, day, hour and minute (two digits each) of the clock
  reading, then six characters that are upper-case hexadecimal digits.
\<close>

theorem order_number_format:
  assumes "valid_datetime now"
  shows "length (generate_order_number now r) = 20
    \<and> take 2 (generate_order_number now r) = ''LC''
    \<and> set (take 12 (drop 2 (generate_order_number now r))) \<subseteq> set ''0123456789''
    \<and> read_decimal (take 4 (drop 2 (generate_order_number now r))) = year now
    \<and> read_decimal (take 2 (drop 6 (generate_order_number now r))) = month now
    \<and> read_decimal (take 2 (drop 8 (generate_order_number now r))) = day now
    \<and> read_decimal (take 2 (drop 10 (generate_order_number now r))) = hour now
    \<and> read_decimal (take 2 (drop 12 (generate_order_number now r))) = minute now
    \<and> set (drop 14 (generate_order_number now r)) \<subseteq> set ''0123456789ABCDEF''"
proof -
  let ?y = "zero_pad 4 (year now)" and ?m = "zero_pad 2 (month now)"
    and ?d = "zero_pad 2 (day now)" and ?h = "zero_pad 2 (hour now)"
    and ?mi = "zero_pad 2 (minute now)" and ?u = "upper (take 6 (hex32 (uuid4_int r)))"
  have s: "generate_order_number now r = ''LC'' @ ?y @ ?m @ ?d @ ?h @ ?mi @ ?u"
    by (simp add: generate_order_number_def strftime_YmdHM_def Let_def)
  from assms have ly: "length ?y = 4" and lm: "length ?m = 2" and ld: "length ?d = 2"
    and lh: "length ?h = 2" and lmi: "length ?mi = 2"
    by (simp_all add: valid_datetime_def zero_pad_length)
  have lu: "length ?u = 6" and hu: "set ?u \<subseteq> set ''0123456789ABCDEF''"
    using unique_id_format[of "uuid4_int r"] by simp_all
  note lay = number_layout[OF ly lm ld lh lmi lu]
  have digits: "set (?y @ ?m @ ?d @ ?h @ ?mi) \<subseteq> set ''0123456789''"
    using zero_pad_digits[of 4 "year now"] zero_pad_digits[of 2 "month now"]
      zero_pad_digits[of 2 "day now"] zero_pad_digits[of 2 "hour now"]
      zero_pad_digits[of 2 "minute now"]
    by (simp add: digit_chars_def)
  show ?thesis
    unfolding s lay using digits hu by (simp add: zero_pad_read)
qed

text \<open>At 2024-05-14 23:01 with random bytes a1 b2 c3 ... the number is LC202405142301A1B2C3.\<close>

theorem order_number_format_witness:
  "valid_datetime example_time
   \<and> generate_order_number example_time example_random = ''LC202405142301A1B2C3''
   \<and> length (generate_order_number example_time example_random) = 20
   \<and> read_decimal (take 4 (drop 2 (generate_order_number example_time example_random))) = 2024"
proof -
  have v: "valid_datetime example_time"
    by (simp add: valid_datetime_def example_time_def)
  have y: "year example_time = 2024"
    by (simp add: example_time_def)
  show ?thesis
    using order_number_format [OF v, of example_random] v y example_order_number by simp
qed

section \<open>Checkout: totals\<close>

lemma stock_only_refl: "stock_only p p"
  by (simp add: stock_only_def)

lemma stock_only_trans: "stock_only a b \<Longrightarrow> stock_only b c \<Longrightarrow> stock_only a c"
  by (cases a, cases b, cases c) (simp add: stock_only_def)

lemma stock_only_reduce: "stock_only q (snd (reduce_stock q n))"
  by (simp add: stock_only_def reduce_stock_def)

lemma stock_only_fields:
  assumes "stock_only p p'"
  shows "p_id p' = p_id p \<and> p_name p' = p_name p \<and> current_price p' = current_price p"
proof -
  have same: "p_id (p\<lparr>stock_quantity := x\<rparr>) = p_id p \<and> p_name (p\<lparr>stock_quantity := x\<rparr>) = p_name p
      \<and> current_price (p\<lparr>stock_quantity := x\<rparr>) = current_price p" for x
    by (simp add: current_price_def split: option.splits)
  from assms have "p' = p\<lparr>stock_quantity := stock_quantity p'\<rparr>"
    by (simp add: stock_only_def)
  with same[of "stock_quantity p'"] show ?thesis
    by simp
qed

lemma get_product_stock_only:
  "list_all2 stock_only ps ps' \<Longrightarrow> rel_option stock_only (get_product ps k) (get_product ps' k)"
proof (induction rule: list_all2_induct)
  case Nil
  then show ?case by (simp add: get_product_def)
next
  case (Cons p ps p' ps')
  from Cons(1) have "p_id p' = p_id p" by (simp add: stock_only_fields)
  with Cons show ?case by (simp add: get_product_def)
qed

lemma item_of_stock_only:
  assumes "list_all2 stock_only ps ps'" and "item_of oid ps' ci it"
  shows "item_of oid ps ci it"
proof -
  from assms(2) obtain p' where p': "get_product ps' (ci_product_id ci) = Some p'"
    by (auto simp: item_of_def split: option.splits)
  with get_product_stock_only[OF assms(1), of "ci_product_id ci"]
  obtain p where p: "get_product ps (ci_product_id ci) = Some p" and "stock_only p p'"
    by (auto simp: option_rel_Some2)
  then have "p_name p' = p_name p" and "current_price p' = current_price p"
    by (simp_all add: stock_only_fields)
  with assms(2) p p' show ?thesis
    by (simp add: item_of_def)
qed

lemma place_items_items:
  "place_items oid cart ps acc = Some (ps', items) \<Longrightarrow>
     \<exists>new. items = acc @ new \<and> list_all2 (item_of oid ps) cart new"
proof (induction cart arbitrary: ps acc)
  case Nil
  then show ?case by simp
next
  case (Cons ci rest)
  let ?ps1 = "update_product (ci_product_id ci) (\<lambda>q. snd (reduce_stock q (ci_quantity ci))) ps"
  from Cons.prems obtain p where p: "get_product ps (ci_product_id ci) = Some p"
    by (auto split: option.splits)
  let ?it = "\<lparr>oi_order_id = oid, oi_product_id = ci_product_id ci, oi_product_name = p_name p,
               oi_quantity = ci_quantity ci, unit_price = current_price p,
               oi_subtotal = ci_subtotal ps ci,
               oi_special_instructions = ci_special_instructions ci\<rparr>"
  from Cons.prems p have "place_items oid rest ?ps1 (acc @ [?it]) = Some (ps', items)"
    by simp
  from Cons.IH[OF this] obtain new'
    where items: "items = (acc @ [?it]) @ new'" and rest: "list_all2 (item_of oid ?ps1) rest new'"
    by blast
  have "list_all2 stock_only ps ?ps1"
    by (rule update_product_rel) (simp_all add: stock_only_refl stock_only_reduce)
  then have "\<And>c i. item_of oid ?ps1 c i \<Longrightarrow> item_of oid ps c i"
    by (rule item_of_stock_only)
  with rest have rest': "list_all2 (item_of oid ps) rest new'"
    by (rule list_all2_mono)
  have "item_of oid ps ci ?it"
    using p by (simp add: item_of_def ci_subtotal_def)
  with rest' items show ?case
    by (intro exI[of _ "?it # new'"]) simp
qed

lemma items_of_cart:
  assumes "list_all2 (item_of oid ps) cart new"
  shows "list_all (\<lambda>ci. get_product ps (ci_product_id ci) \<noteq> None) cart"
    and "map oi_subtotal new = map (line_total ps) cart"
    and "map (ci_subtotal ps) cart = map (line_total ps) cart"
    and "list_all (\<lambda>it. oi_order_id it = oid \<and> oi_subtotal it = unit_price it * of_int (oi_quantity it)) new"
    and "map oi_quantity new = map ci_quantity cart"
    and "map oi_product_id new = map ci_product_id cart"
  using assms
  by (induction rule: list_all2_induct)
     (auto simp: item_of_def line_total_def ci_subtotal_def split: option.splits)

lemma checkout_placed:
  assumes "checkout d call = (Order_Placed number warning, d')"
  shows "\<exists>bk addr discount coupons' ps' items.
     cart_bakery d (k_user call) = Some bk
     \<and> apply_coupon (coupons d) (k_coupon_code call) (k_now_coupon call)
          (cart_subtotal d (k_user call)) (b_id bk) = (discount, coupons', warning)
     \<and> place_items (fresh_id (map o_id (orders d))) (user_cart d (k_user call)) (products d) []
          = Some (ps', items)
     \<and> place_order d call (user_cart d (k_user call)) bk (cart_subtotal d (k_user call)) addr
          (discount, coupons', warning) = (Order_Placed number warning, d')"
proof -
  from assms obtain bk addr where bk: "cart_bakery d (k_user call) = Some bk"
    and po: "place_order d call (user_cart d (k_user call)) bk (cart_subtotal d (k_user call)) addr
          (apply_coupon (coupons d) (k_coupon_code call) (k_now_coupon call)
             (cart_subtotal d (k_user call)) (b_id bk)) = (Order_Placed number warning, d')"
    by (auto simp: checkout_unfold split: if_splits option.splits)
  obtain discount coupons' w
    where ac: "apply_coupon (coupons d) (k_coupon_code call) (k_now_coupon call)
             (cart_subtotal d (k_user call)) (b_id bk) = (discount, coupons', w)"
    by (cases "apply_coupon (coupons d) (k_coupon_code call) (k_now_coupon call)
             (cart_subtotal d (k_user call)) (b_id bk)") auto
  from po ac obtain ps' items
    where pi: "place_items (fresh_id (map o_id (orders d))) (user_cart d (k_user call)) (products d) []
          = Some (ps', items)" and "w = warning"
    by (auto simp: place_order_unfold split: option.splits)
  with bk po ac show ?thesis by auto
qed

text \<open>
  Claim C1. When checkout places an order, exactly one order and the order items of the
  cart are added. The order's total is subtotal plus delivery fee minus discount; every
  cart item's product is in the table, and the subtotal is the sum over the cart of the
  product's current price (read before any stock is changed) times the quantity; the
  subtotals of the new order items add up to the order's subtotal, and each of them is
  unit price times quantity and belongs to the new order.
\<close>

theorem checkout_totals:
  assumes "checkout d call = (Order_Placed number warning, d')"
  shows "\<exists>ord items.
     orders d' = orders d @ [ord] \<and> order_items d' = order_items d @ items
     \<and> order_number ord = number
     \<and> total_amount ord = o_subtotal ord + o_delivery_fee ord - o_discount ord
     \<and> list_all (\<lambda>ci. get_product (products d) (ci_product_id ci) \<noteq> None) (user_cart d (k_user call))
     \<and> o_subtotal ord = py_sum (map (line_total (products d)) (user_cart d (k_user call)))
     \<and> py_sum (map oi_subtotal items) = o_subtotal ord
     \<and> list_all (\<lambda>it. oi_order_id it = o_id ord
                        \<and> oi_subtotal it = unit_price it * of_int (oi_quantity it)) items
     \<and> map oi_quantity items = map ci_quantity (user_cart d (k_user call))
     \<and> map oi_product_id items = map ci_product_id (user_cart d (k_user call))"
proof -
  let ?cart = "user_cart d (k_user call)" and ?oid = "fresh_id (map o_id (orders d))"
  from checkout_placed[OF assms] obtain bk addr discount coupons' ps' items
    where pi: "place_items ?oid ?cart (products d) [] = Some (ps', items)"
      and po: "place_order d call ?cart bk (cart_subtotal d (k_user call)) addr
          (discount, coupons', warning) = (Order_Placed number warning, d')"
    by blast
  from place_items_items[OF pi] have rel: "list_all2 (item_of ?oid (products d)) ?cart items"
    by simp
  note facts = items_of_cart[OF rel]
  let ?ord = "\<lparr>o_id = ?oid,
                order_number = generate_order_number (k_now_number call) (k_random call),
                customer_id = k_user call,
                o_bakery_id = b_id bk, delivery_address_id = Some addr,
                o_subtotal = cart_subtotal d (k_user call), o_delivery_fee = b_delivery_fee bk,
                o_discount = discount,
                total_amount = cart_subtotal d (k_user call) + b_delivery_fee bk - discount,
                status = ''pending'',
                payment_method = k_payment_method call, cancellation_reason = None,
                o_special_instructions = k_special_instructions call, delivered_at = None\<rparr>"
  from po pi have d': "orders d' = orders d @ [?ord]" "order_items d' = order_items d @ items"
    and num: "order_number ?ord = number"
    by (auto simp: place_order_unfold)
  have "o_subtotal ?ord = py_sum (map (ci_subtotal (products d)) ?cart)"
    by (simp add: cart_subtotal_def)
  then have sub: "o_subtotal ?ord = py_sum (map (line_total (products d)) ?cart)"
    by (simp only: facts(3))
  have sum: "py_sum (map oi_subtotal items) = o_subtotal ?ord"
    by (simp only: facts(2) sub)
  show ?thesis
    apply (rule exI[of _ ?ord], rule exI[of _ items])
    using d' num sub sum facts(1) facts(4) facts(5) facts(6) by simp
qed

section \<open>Checkout: rejections\<close>

lemma apply_coupon_no_code: "apply_coupon cs [] now subtotal b = (0, cs, None)"
  by (simp add: apply_coupon_def)

lemma apply_coupon_rejected:
  assumes "coupon_rejected d call" and "cart_bakery d (k_user call) = Some bk"
  shows "\<exists>w. apply_coupon (coupons d) (k_coupon_code call) (k_now_coupon call)
           (cart_subtotal d (k_user call)) (b_id bk) = (0, coupons d, w)"
  using assms
  by (auto simp: apply_coupon_def coupon_rejected_def split: option.splits prod.splits bool.splits)

lemma checkout_coupon_rejected:
  assumes "coupon_rejected d call"
  shows "without_warning (fst (checkout d call)) = fst (checkout d (call\<lparr>k_coupon_code := []\<rparr>))"
    and "snd (checkout d call) = snd (checkout d (call\<lparr>k_coupon_code := []\<rparr>))"
    and "is_placed (fst (checkout d call)) \<Longrightarrow> o_discount (last (orders (snd (checkout d call)))) = 0"
    and "is_placed (fst (checkout d call)) \<Longrightarrow> coupons (snd (checkout d call)) = coupons d"
proof -
  have "without_warning (fst (checkout d call)) = fst (checkout d (call\<lparr>k_coupon_code := []\<rparr>))
    \<and> snd (checkout d call) = snd (checkout d (call\<lparr>k_coupon_code := []\<rparr>))
    \<and> (is_placed (fst (checkout d call)) \<longrightarrow>
         o_discount (last (orders (snd (checkout d call)))) = 0
         \<and> coupons (snd (checkout d call)) = coupons d)"
  proof (cases "cart_bakery d (k_user call)")
    case None
    then show ?thesis by (simp add: checkout_unfold)
  next
    case (Some bk)
    from apply_coupon_rejected[OF assms Some] obtain w
      where w: "apply_coupon (coupons d) (k_coupon_code call) (k_now_coupon call)
             (cart_subtotal d (k_user call)) (b_id bk) = (0, coupons d, w)" by blast
    show ?thesis
      by (simp add: checkout_unfold Some w apply_coupon_no_code place_order_unfold
          split: option.splits)
  qed
  then show "without_warning (fst (checkout d call)) = fst (checkout d (call\<lparr>k_coupon_code := []\<rparr>))"
    and "snd (checkout d call) = snd (checkout d (call\<lparr>k_coupon_code := []\<rparr>))"
    and "is_placed (fst (checkout d call)) \<Longrightarrow> o_discount (last (orders (snd (checkout d call)))) = 0"
    and "is_placed (fst (checkout d call)) \<Longrightarrow> coupons (snd (checkout d call)) = coupons d"
    by blast+
qed

text \<open>
  Claim C5. Checkout answers 'cart is empty' and returns the database unchanged when the
  user has no cart item, and answers 'minimum order amount' and returns it unchanged when
  the subtotal is below the minimum of the cart's bakery. A POST whose address key is
  absent or is not an address of the user places no order and returns the database
  unchanged (with the answer 'select a valid address' once the two earlier checks pass).
  When the coupon code names no coupon that is valid for the cart, checkout answers and
  writes exactly what it does without a coupon code, apart from the flashed warning; if it
  places an order, the order's discount is 0 and no coupon is changed.
\<close>

theorem checkout_rejections:
  "(user_cart d (k_user call) = [] \<longrightarrow> checkout d call = (Cart_Is_Empty, d))
   \<and> (cart_bakery d (k_user call) = Some bk
        \<and> cart_subtotal d (k_user call) < b_min_order_amount bk
      \<longrightarrow> checkout d call = (Minimum_Not_Reached (b_min_order_amount bk), d))
   \<and> (k_method call = POST
        \<and> (\<forall>addr. k_address_id call = Some addr \<longrightarrow> \<not> owns_address d (k_user call) addr)
      \<longrightarrow> snd (checkout d call) = d \<and> \<not> is_placed (fst (checkout d call)))
   \<and> (k_method call = POST
        \<and> (\<forall>addr. k_address_id call = Some addr \<longrightarrow> \<not> owns_address d (k_user call) addr)
        \<and> cart_bakery d (k_user call) = Some bk
        \<and> \<not> cart_subtotal d (k_user call) < b_min_order_amount bk
      \<longrightarrow> checkout d call = (Address_Not_Valid, d))
   \<and> (coupon_rejected d call \<longrightarrow>
        without_warning (fst (checkout d call)) = fst (checkout d (call\<lparr>k_coupon_code := []\<rparr>))
        \<and> snd (checkout d call) = snd (checkout d (call\<lparr>k_coupon_code := []\<rparr>))
        \<and> (is_placed (fst (checkout d call)) \<longrightarrow>
             o_discount (last (orders (snd (checkout d call)))) = 0
             \<and> coupons (snd (checkout d call)) = coupons d))"
proof (intro conjI impI)
  assume "user_cart d (k_user call) = []"
  then show "checkout d call = (Cart_Is_Empty, d)"
    by (simp add: checkout_unfold)
next
  assume h: "cart_bakery d (k_user call) = Some bk
        \<and> cart_subtotal d (k_user call) < b_min_order_amount bk"
  then have "user_cart d (k_user call) \<noteq> []"
    by (auto simp: cart_bakery_def)
  with h show "checkout d call = (Minimum_Not_Reached (b_min_order_amount bk), d)"
    by (simp add: checkout_unfold)
next
  assume h: "k_method call = POST
        \<and> (\<forall>addr. k_address_id call = Some addr \<longrightarrow> \<not> owns_address d (k_user call) addr)"
  then have none: "\<And>addr. k_address_id call = Some addr \<Longrightarrow>
      find (\<lambda>a. a_id a = addr \<and> a_user_id a = k_user call) (addresses d) = None"
    by (auto simp: owns_address_def find_None_iff)
  with h show "snd (checkout d call) = d" and "\<not> is_placed (fst (checkout d call))"
    by (auto simp: checkout_unfold split: option.splits)
next
  assume h: "k_method call = POST
        \<and> (\<forall>addr. k_address_id call = Some addr \<longrightarrow> \<not> owns_address d (k_user call) addr)
        \<and> cart_bakery d (k_user call) = Some bk
        \<and> \<not> cart_subtotal d (k_user call) < b_min_order_amount bk"
  then have none: "\<And>addr. k_address_id call = Some addr \<Longrightarrow>
      find (\<lambda>a. a_id a = addr \<and> a_user_id a = k_user call) (addresses d) = None"
    by (auto simp: owns_address_def find_None_iff)
  from h have "user_cart d (k_user call) \<noteq> []"
    by (auto simp: cart_bakery_def)
  with h none show "checkout d call = (Address_Not_Valid, d)"
    by (auto simp: checkout_unfold split: option.splits)
next
  assume r: "coupon_rejected d call"
  show "without_warning (fst (checkout d call)) = fst (checkout d (call\<lparr>k_coupon_code := []\<rparr>))"
    by (rule checkout_coupon_rejected(1)[OF r])
  show "snd (checkout d call) = snd (checkout d (call\<lparr>k_coupon_code := []\<rparr>))"
    by (rule checkout_coupon_rejected(2)[OF r])
  assume p: "is_placed (fst (checkout d call))"
  show "o_discount (last (orders (snd (checkout d call)))) = 0"
    by (rule checkout_coupon_rejected(3)[OF r p])
  show "coupons (snd (checkout d call)) = coupons d"
    by (rule checkout_coupon_rejected(4)[OF r p])
qed

section \<open>Checkout: the examples\<close>

lemma example_checkout_answer:
  "fst (checkout example_db example_call) = Order_Placed ''LC202405142301A1B2C3'' None"
  by code_simp

text \<open>
  The end-to-end scenario: subtotal 445, total 475, two order items with subtotals 360
  and 85.
\<close>

theorem checkout_totals_witness:
  "checkout example_db example_call = (Order_Placed ''LC202405142301A1B2C3'' None, placed_db)
   \<and> (\<exists>ord items.
     orders placed_db = orders example_db @ [ord] \<and> order_items placed_db = order_items example_db @ items
     \<and> order_number ord = ''LC202405142301A1B2C3''
     \<and> total_amount ord = o_subtotal ord + o_delivery_fee ord - o_discount ord
     \<and> list_all (\<lambda>ci. get_product (products example_db) (ci_product_id ci) \<noteq> None)
          (user_cart example_db (k_user example_call))
     \<and> o_subtotal ord
         = py_sum (map (line_total (products example_db)) (user_cart example_db (k_user example_call)))
     \<and> py_sum (map oi_subtotal items) = o_subtotal ord
     \<and> list_all (\<lambda>it. oi_order_id it = o_id ord
                        \<and> oi_subtotal it = unit_price it * of_int (oi_quantity it)) items
     \<and> map oi_quantity items = map ci_quantity (user_cart example_db (k_user example_call))
     \<and> map oi_product_id items = map ci_product_id (user_cart example_db (k_user example_call)))
   \<and> map total_amount (orders placed_db) = [475]
   \<and> map oi_subtotal (order_items placed_db) = [360, 85]"
proof -
  have h: "checkout example_db example_call = (Order_Placed ''LC202405142301A1B2C3'' None, placed_db)"
    using example_checkout_answer by (simp add: placed_db_def prod_eq_iff)
  have t: "map total_amount (orders placed_db) = [475]"
    unfolding placed_db_def by code_simp
  have i: "map oi_subtotal (order_items placed_db) = [360, 85]"
    unfolding placed_db_def by code_simp
  from checkout_totals[OF h] h t i show ?thesis
    by blast
qed

text \<open>
  An empty cart; a bakery minimum of 1000 against a subtotal of 445; an address key that
  is not the user's; a coupon that is switched off (the order is placed with discount 0
  and the warning 'Coupon is not active').
\<close>

theorem checkout_rejections_witness:
  "user_cart empty_cart_db (k_user example_call) = []
   \<and> checkout empty_cart_db example_call = (Cart_Is_Empty, empty_cart_db)
   \<and> cart_bakery high_minimum_db (k_user example_call) = Some (example_bakery\<lparr>b_min_order_amount := 1000\<rparr>)
   \<and> cart_subtotal high_minimum_db (k_user example_call) < 1000
   \<and> checkout high_minimum_db example_call = (Minimum_Not_Reached 1000, high_minimum_db)
   \<and> k_method foreign_address_call = POST
   \<and> k_address_id foreign_address_call = Some 99
   \<and> \<not> owns_address example_db (k_user foreign_address_call) 99
   \<and> checkout example_db foreign_address_call = (Address_Not_Valid, example_db)
   \<and> coupon_rejected inactive_coupon_db coupon_call
   \<and> fst (checkout inactive_coupon_db coupon_call)
       = Order_Placed ''LC202405142301A1B2C3'' (Some Coupon_Not_Active)
   \<and> o_discount (last (orders (snd (checkout inactive_coupon_db coupon_call)))) = 0
   \<and> coupons (snd (checkout inactive_coupon_db coupon_call)) = coupons inactive_coupon_db"
proof -
  let ?bk = "example_bakery\<lparr>b_min_order_amount := 1000\<rparr>"
  have e: "user_cart empty_cart_db (k_user example_call) = []"
    by (simp add: user_cart_def empty_cart_db_def)
  have b: "cart_bakery high_minimum_db (k_user example_call) = Some ?bk"
    by code_simp
  have s: "cart_subtotal high_minimum_db (k_user example_call) < 1000"
    by code_simp
  have m: "k_method foreign_address_call = POST" "k_address_id foreign_address_call = Some 99"
    by (simp_all add: foreign_address_call_def example_call_def)
  have o: "\<not> owns_address example_db (k_user foreign_address_call) 99"
    by (simp add: owns_address_def example_db_def)
  have b2: "cart_bakery example_db (k_user foreign_address_call) = Some example_bakery"
    by code_simp
  have s2: "\<not> cart_subtotal example_db (k_user foreign_address_call) < b_min_order_amount example_bakery"
    by code_simp
  have r: "coupon_rejected inactive_coupon_db coupon_call"
    by code_simp
  have p: "fst (checkout inactive_coupon_db coupon_call)
       = Order_Placed ''LC202405142301A1B2C3'' (Some Coupon_Not_Active)"
    by code_simp
  have a: "\<forall>addr. k_address_id foreign_address_call = Some addr
             \<longrightarrow> \<not> owns_address example_db (k_user foreign_address_call) addr"
    using m o by simp
  have s': "cart_subtotal high_minimum_db (k_user example_call) < b_min_order_amount ?bk"
    using s by simp
  have 1: "checkout empty_cart_db example_call = (Cart_Is_Empty, empty_cart_db)"
    using checkout_rejections[of empty_cart_db example_call ?bk] e by blast
  have "checkout high_minimum_db example_call
          = (Minimum_Not_Reached (b_min_order_amount ?bk), high_minimum_db)"
    using checkout_rejections[of high_minimum_db example_call ?bk] b s' by blast
  then have 2: "checkout high_minimum_db example_call = (Minimum_Not_Reached 1000, high_minimum_db)"
    by simp
  have 3: "checkout example_db foreign_address_call = (Address_Not_Valid, example_db)"
    using checkout_rejections[of example_db foreign_address_call example_bakery] m(1) a b2 s2
    by blast
  have p': "is_placed (fst (checkout inactive_coupon_db coupon_call))"
    by (simp add: p)
  have 4: "o_discount (last (orders (snd (checkout inactive_coupon_db coupon_call)))) = 0
      \<and> coupons (snd (checkout inactive_coupon_db coupon_call)) = coupons inactive_coupon_db"
    using checkout_rejections[of inactive_coupon_db coupon_call ?bk] r p' by blast
  from e 1 b s 2 m o 3 r p 4 show ?thesis
    by blast
qed

end
